theory Spec2Isabelle
  imports Complex_Main "HOL-Library.Word" "HOL-Library.AList"
begin

section \<open>Common types (common.h)\<close>

text \<open>
  \<^verbatim>\<open>timestamp_t\<close> is a \<^verbatim>\<open>system_clock\<close> time point and \<^verbatim>\<open>duration_t\<close> is
  \<^verbatim>\<open>std::chrono::nanoseconds\<close>: both are counts of nanoseconds, modelled as integers.
  A \<^verbatim>\<open>double\<close> is modelled as a real number; \<^verbatim>\<open>size_t\<close> sizes of containers and event
  ids are naturals; the statistics counters, which the source increments and decrements
  without a check, are 64-bit words.
\<close>

type_synonym timestamp_t = int
type_synonym duration_t = int

datatype Severity = TRACE | DEBUG | INFO | WARNING | ERROR | CRITICAL | ALERT

fun severity_rank :: "Severity \<Rightarrow> nat" where
  "severity_rank TRACE = 0"
| "severity_rank DEBUG = 1"
| "severity_rank INFO = 2"
| "severity_rank WARNING = 3"
| "severity_rank ERROR = 4"
| "severity_rank CRITICAL = 5"
| "severity_rank ALERT = 6"

fun severity_to_string :: "Severity \<Rightarrow> string" where
  "severity_to_string TRACE = ''TRACE''"
| "severity_to_string DEBUG = ''DEBUG''"
| "severity_to_string INFO = ''INFO''"
| "severity_to_string WARNING = ''WARNING''"
| "severity_to_string ERROR = ''ERROR''"
| "severity_to_string CRITICAL = ''CRITICAL''"
| "severity_to_string ALERT = ''ALERT''"

record StackFrame =
  frame_function :: string
  frame_file :: string
  frame_line :: nat
  frame_module :: string

subsection \<open>Output streams\<close>

text \<open>
  An \<^verbatim>\<open>std::ostringstream\<close> is modelled by the sequence of values inserted into it.
  Strings and integers are rendered exactly. How the stream prints a \<^verbatim>\<open>double\<close>
  (six significant digits by default) and a local time (\<^verbatim>\<open>put_time\<close>) is left to the
  platform: such insertions stay as tokens.
\<close>

datatype tok = Str string | Dbl real | LocalTime timestamp_t

type_synonym ostream = "tok list"

definition digit_char :: "nat \<Rightarrow> char" where
  "digit_char d = ''0123456789'' ! d"

function dec :: "nat \<Rightarrow> string" where
  "dec n = (if n < 10 then [digit_char n] else dec (n div 10) @ [digit_char (n mod 10)])"
  by pat_completeness auto
termination
  by (relation "measure id") auto

declare dec.simps [simp del]

definition dec_int :: "int \<Rightarrow> string" where
  "dec_int i = (if i < 0 then CHR ''-'' # dec (nat (- i)) else dec (nat i))"

text \<open>\<^verbatim>\<open>std::setw(w) << std::setfill('0')\<close> in front of an unsigned integer.\<close>

definition setw_fill0 :: "nat \<Rightarrow> string \<Rightarrow> string" where
  "setw_fill0 w s = replicate (w - length s) CHR ''0'' @ s"

section \<open>Events (event.h)\<close>

text \<open>
  The \<^verbatim>\<open>std::map\<close> members are association lists in the iteration order of the map
  (ascending keys). The member \<^verbatim>\<open>context_\<close> is the field \<open>context_map\<close> and the member
  \<^verbatim>\<open>incident_id_\<close> is \<open>ev_incident_id\<close>.
\<close>

record LogEvent =
  event_type :: string
  timestamp :: timestamp_t
  severity :: Severity
  message :: string
  entities :: "(string \<times> string) list"
  metrics :: "(string \<times> real) list"
  context_map :: "(string \<times> string) list"
  tags :: "string list"
  stack_trace :: "StackFrame list"
  service_name :: string
  service_instance :: string
  trace_id :: string
  span_id :: string
  anomaly_score :: real
  predicted_labels :: "string list"
  ev_incident_id :: "string option"
  event_id :: nat

text \<open>The constructor \<^verbatim>\<open>LogEvent(event_type)\<close>: the clock reading and the id counter are inputs.\<close>

definition new_event :: "string \<Rightarrow> timestamp_t \<Rightarrow> nat \<Rightarrow> LogEvent" where
  "new_event ty now n =
     \<lparr>event_type = ty, timestamp = now, severity = INFO, message = [], entities = [],
      metrics = [], context_map = [], tags = [], stack_trace = [], service_name = [],
      service_instance = [], trace_id = [], span_id = [], anomaly_score = 0,
      predicted_labels = [], ev_incident_id = None, event_id = n\<rparr>"

definition is_anomalous :: "LogEvent \<Rightarrow> bool" where
  "is_anomalous e = (anomaly_score e \<ge> 0.7)"

subsection \<open>Serialization (event.cpp)\<close>

definition dq :: string where
  "dq = [CHR 0x22]"

text \<open>
  \<^verbatim>\<open>duration_cast<milliseconds>\<close> truncates the nanoseconds toward zero.
\<close>

definition to_milliseconds :: "timestamp_t \<Rightarrow> int" where
  "to_milliseconds t = (if 0 \<le> t then t div 1000000 else - ((- t) div 1000000))"

text \<open>The loops over a map that write a comma before every entry but the first.\<close>

fun json_string_entries :: "bool \<Rightarrow> (string \<times> string) list \<Rightarrow> ostream" where
  "json_string_entries first [] = []"
| "json_string_entries first ((k, v) # rest) =
     (if first then [] else [Str '','']) @ [Str dq, Str k, Str (dq @ '':'' @ dq), Str v, Str dq]
     @ json_string_entries False rest"

fun json_number_entries :: "bool \<Rightarrow> (string \<times> real) list \<Rightarrow> ostream" where
  "json_number_entries first [] = []"
| "json_number_entries first ((k, v) # rest) =
     (if first then [] else [Str '','']) @ [Str dq, Str k, Str (dq @ '':''), Dbl v]
     @ json_number_entries False rest"

definition to_json :: "LogEvent \<Rightarrow> ostream" where
  "to_json e =
     [Str ''{'',
      Str (dq @ ''event_id'' @ dq @ '':''), Str (dec (event_id e)), Str '','',
      Str (dq @ ''event_type'' @ dq @ '':'' @ dq), Str (event_type e), Str (dq @ '',''),
      Str (dq @ ''timestamp'' @ dq @ '':''), Str (dec_int (to_milliseconds (timestamp e))), Str '','',
      Str (dq @ ''severity'' @ dq @ '':'' @ dq), Str (severity_to_string (severity e)), Str (dq @ '','')]
     @ (if message e = [] then []
        else [Str (dq @ ''message'' @ dq @ '':'' @ dq), Str (message e), Str (dq @ '','')])
     @ (if service_name e = [] then []
        else [Str (dq @ ''service'' @ dq @ '':'' @ dq), Str (service_name e), Str (dq @ '','')])
     @ (if trace_id e = [] then []
        else [Str (dq @ ''trace_id'' @ dq @ '':'' @ dq), Str (trace_id e), Str (dq @ '','')])
     @ (if entities e = [] then []
        else [Str (dq @ ''entities'' @ dq @ '':{'')] @ json_string_entries True (entities e)
             @ [Str ''},''])
     @ (if metrics e = [] then []
        else [Str (dq @ ''metrics'' @ dq @ '':{'')] @ json_number_entries True (metrics e)
             @ [Str ''},''])
     @ (if context_map e = [] then []
        else [Str (dq @ ''context'' @ dq @ '':{'')] @ json_string_entries True (context_map e)
             @ [Str ''},''])
     @ [Str (dq @ ''anomaly_score'' @ dq @ '':''), Dbl (anomaly_score e)]
     @ (case ev_incident_id e of
          None \<Rightarrow> []
        | Some i \<Rightarrow> [Str ('','' @ dq @ ''incident_id'' @ dq @ '':'' @ dq), Str i, Str dq])
     @ [Str ''}'']"

text \<open>
  The text a stream holds is the concatenation of what its insertions print. \<open>text_of\<close>
  joins neighbouring strings, so that two streams with the same \<open>text_of\<close> hold the same
  text, however a \<^verbatim>\<open>double\<close> is printed.
\<close>

fun text_of :: "ostream \<Rightarrow> ostream" where
  "text_of (Str a # Str b # rest) = text_of (Str (a @ b) # rest)"
| "text_of (x # rest) = x # text_of rest"
| "text_of [] = []"

fun text_string_entries :: "bool \<Rightarrow> (string \<times> string) list \<Rightarrow> ostream" where
  "text_string_entries first [] = []"
| "text_string_entries first ((k, v) # rest) =
     (if first then [] else [Str '', '']) @ [Str k, Str ''='', Str v]
     @ text_string_entries False rest"

fun text_number_entries :: "bool \<Rightarrow> (string \<times> real) list \<Rightarrow> ostream" where
  "text_number_entries first [] = []"
| "text_number_entries first ((k, v) # rest) =
     (if first then [] else [Str '', '']) @ [Str k, Str ''='', Dbl v]
     @ text_number_entries False rest"

text \<open>The warning sign in front of \<^verbatim>\<open>ANOMALY\<close>, as the bytes of the source file.\<close>

definition anomaly_mark :: string where
  "anomaly_mark = [CHR 0x20, CHR 0xE2, CHR 0x9A, CHR 0xA0, CHR 0xEF, CHR 0xB8, CHR 0x8F]
                  @ '' ANOMALY(''"

definition to_string :: "LogEvent \<Rightarrow> ostream" where
  "to_string e =
     [LocalTime (timestamp e), Str '' ['', Str (severity_to_string (severity e)), Str '']'']
     @ (if service_name e = [] then []
        else [Str '' ['', Str (service_name e)]
             @ (if service_instance e = [] then [] else [Str '':'', Str (service_instance e)])
             @ [Str '']''])
     @ [Str '' '', Str (event_type e)]
     @ (if message e = [] then [] else [Str '' - '', Str (message e)])
     @ (if entities e = [] then []
        else [Str '' {''] @ text_string_entries True (entities e) @ [Str ''}''])
     @ (if metrics e = [] then []
        else [Str '' [''] @ text_number_entries True (metrics e) @ [Str '']''])
     @ (if is_anomalous e then [Str anomaly_mark, Dbl (anomaly_score e), Str '')''] else [])"

section \<open>Correlations (correlation_engine.h)\<close>

record Correlation =
  corr_event_ids :: "nat list"
  correlation_type :: string
  confidence :: real
  reason :: string
  first_event_time :: timestamp_t
  last_event_time :: timestamp_t
  metadata :: "(string \<times> string) list"

section \<open>Incident manager (incident_manager.h, incident_manager.cpp)\<close>

datatype IncidentSeverity = LOW | MEDIUM | HIGH | CRITICAL_inc

fun incident_severity_to_string :: "IncidentSeverity \<Rightarrow> string" where
  "incident_severity_to_string LOW = ''LOW''"
| "incident_severity_to_string MEDIUM = ''MEDIUM''"
| "incident_severity_to_string HIGH = ''HIGH''"
| "incident_severity_to_string CRITICAL_inc = ''CRITICAL''"

datatype IncidentStatus = OPEN | INVESTIGATING | IDENTIFIED | MONITORING | RESOLVED | CLOSED

text \<open>
  The members \<^verbatim>\<open>severity\<close>, \<^verbatim>\<open>anomaly_score\<close> and \<^verbatim>\<open>tags\<close> of \<^verbatim>\<open>Incident\<close> carry the
  prefix \<open>inc_\<close>. \<^verbatim>\<open>affected_users_count\<close> has no initialiser and \<^verbatim>\<open>evaluate_event\<close>
  never assigns it: \<open>None\<close> stands for the indeterminate value.
\<close>

record Incident =
  incident_id :: string
  title :: string
  description :: ostream
  inc_severity :: IncidentSeverity
  status :: IncidentStatus
  created_at :: timestamp_t
  resolved_at :: "timestamp_t option"
  event_ids :: "nat list"
  root_cause :: "string option"
  root_cause_event_id :: "nat option"
  inc_anomaly_score :: real
  affected_services_count :: nat
  affected_users_count :: "nat option"
  labels :: "(string \<times> string) list"
  inc_tags :: "string list"
  jira_ticket_id :: "string option"
  pagerduty_incident_id :: "string option"

record IncidentManagerConfig =
  anomaly_threshold :: real
  pattern_match_threshold :: nat
  correlated_events_threshold :: nat
  enable_auto_resolution :: bool
  resolution_timeout :: duration_t
  enable_deduplication :: bool
  deduplication_window :: duration_t
  critical_threshold :: real
  high_threshold :: real
  medium_threshold :: real

definition default_incident_config :: IncidentManagerConfig where
  "default_incident_config =
     \<lparr>anomaly_threshold = 0.75, pattern_match_threshold = 1, correlated_events_threshold = 3,
      enable_auto_resolution = True, resolution_timeout = 15 * 60 * 1000000000,
      enable_deduplication = True, deduplication_window = 5 * 60 * 1000000000,
      critical_threshold = 0.95, high_threshold = 0.85, medium_threshold = 0.75\<rparr>"

record ManagerStats =
  total_created :: "64 word"
  currently_open :: "64 word"
  resolved :: "64 word"
  deduplicated :: "64 word"

subsection \<open>Listeners\<close>

text \<open>
  A callback is a \<^verbatim>\<open>std::function<void(const T&)>\<close>: it cannot change its argument, and
  what the model keeps of a call is whether it returns or throws. The label identifies the
  callback in the list of calls made. An integration is an object with three virtual
  methods; the manager catches \<^verbatim>\<open>std::exception\<close> around its calls and nothing else.
\<close>

datatype call_result = Returns | Throws

type_synonym 'a callback = "string \<times> ('a \<Rightarrow> call_result)"

datatype 'a integ_result = Done 'a | StdException | OtherException

record IncidentIntegration =
  integ_name :: string
  integ_create_incident :: "Incident \<Rightarrow> string integ_result"
  integ_resolve_incident :: "string \<Rightarrow> string \<Rightarrow> unit integ_result"

text \<open>
  \<^verbatim>\<open>for (const auto& callback : callbacks) callback(x);\<close> with no handler around the
  call: an exception leaves the loop and the enclosing function. The result lists the
  callbacks that were called, in order.
\<close>

fun invoke_all :: "'a callback list \<Rightarrow> 'a \<Rightarrow> string list \<times> call_result" where
  "invoke_all [] x = ([], Returns)"
| "invoke_all (cb # cbs) x =
     (case snd cb x of
        Throws \<Rightarrow> ([fst cb], Throws)
      | Returns \<Rightarrow> (let (called, r) = invoke_all cbs x in (fst cb # called, r)))"

text \<open>
  \<^verbatim>\<open>for (integration : integrations_) try { integration->create_incident(incident); }
  catch (const std::exception&) { ... }\<close>: the returned external id is dropped.
\<close>

fun notify_created :: "IncidentIntegration list \<Rightarrow> Incident \<Rightarrow> string list \<times> call_result" where
  "notify_created [] inc = ([], Returns)"
| "notify_created (g # gs) inc =
     (case integ_create_incident g inc of
        OtherException \<Rightarrow> ([integ_name g], Throws)
      | _ \<Rightarrow> (let (called, r) = notify_created gs inc in (integ_name g # called, r)))"

record IncidentManager =
  config :: IncidentManagerConfig
  next_incident_id :: "64 word"
  incidents :: "(string \<times> Incident) list"
  on_created_callbacks :: "Incident callback list"
  on_resolved_callbacks :: "Incident callback list"
  integrations :: "IncidentIntegration list"
  stats :: ManagerStats

text \<open>
  \<^verbatim>\<open>incidents_\<close> is an \<^verbatim>\<open>unordered_map\<close>; the association list fixes one iteration order.
  \<^verbatim>\<open>incidents_[id] = incident\<close> is \<open>AList.update\<close>.
\<close>

definition new_manager :: "IncidentManagerConfig \<Rightarrow> IncidentManager" where
  "new_manager cfg =
     \<lparr>config = cfg, next_incident_id = 1, incidents = [], on_created_callbacks = [],
      on_resolved_callbacks = [], integrations = [],
      stats = \<lparr>total_created = 0, currently_open = 0, resolved = 0, deduplicated = 0\<rparr>\<rparr>"

definition generate_incident_id :: "64 word \<Rightarrow> string" where
  "generate_incident_id n = ''INC-'' @ setw_fill0 6 (dec (unat n))"

definition calculate_severity :: "IncidentManagerConfig \<Rightarrow> real \<Rightarrow> nat \<Rightarrow> nat \<Rightarrow> IncidentSeverity" where
  "calculate_severity cfg score pattern_matches correlated_events =
     (if score \<ge> critical_threshold cfg then CRITICAL_inc
      else if score \<ge> high_threshold cfg \<or> pattern_matches \<ge> 2 then HIGH
      else if score \<ge> medium_threshold cfg \<or> correlated_events \<ge> 5 then MEDIUM
      else LOW)"

definition should_create ::
  "IncidentManagerConfig \<Rightarrow> LogEvent \<Rightarrow> Correlation list \<Rightarrow> string list \<Rightarrow> bool" where
  "should_create cfg event correlations matched_patterns =
     (anomaly_score event \<ge> anomaly_threshold cfg
      \<or> length matched_patterns \<ge> pattern_match_threshold cfg
      \<or> length correlations \<ge> correlated_events_threshold cfg)"

definition incident_title :: "LogEvent \<Rightarrow> string list \<Rightarrow> string" where
  "incident_title event matched_patterns =
     (case matched_patterns of
        [] \<Rightarrow> ''Anomaly in '' @ event_type event
      | p # _ \<Rightarrow> ''Pattern detected: '' @ p)"

definition incident_description ::
  "LogEvent \<Rightarrow> Correlation list \<Rightarrow> string list \<Rightarrow> ostream" where
  "incident_description event correlations matched_patterns =
     [Str ''Incident created from event: '', Str (event_type event), Str [CHR 0x0A],
      Str ''Anomaly score: '', Dbl (anomaly_score event), Str [CHR 0x0A]]
     @ (if matched_patterns = [] then []
        else Str (CHR 0x0A # ''Matched patterns:'' @ [CHR 0x0A])
             # concat (map (\<lambda>p. [Str ''  - '', Str p, Str [CHR 0x0A]]) matched_patterns))
     @ (if correlations = [] then []
        else [Str (CHR 0x0A # ''Correlated events: ''), Str (dec (length correlations)),
              Str [CHR 0x0A]]
             @ concat (map (\<lambda>c. [Str ''  - '', Str (reason c), Str '' (confidence: '',
                                   Dbl (confidence c), Str ('')'' @ [CHR 0x0A])]) correlations))
     @ (if message event = [] then []
        else [Str (CHR 0x0A # ''Message: ''), Str (message event), Str [CHR 0x0A]])
     @ (if entities event = [] then []
        else Str (CHR 0x0A # ''Entities:'' @ [CHR 0x0A])
             # concat (map (\<lambda>(k, v). [Str ''  '', Str k, Str '': '', Str v, Str [CHR 0x0A]])
                         (entities event)))
     @ (if metrics event = [] then []
        else Str (CHR 0x0A # ''Metrics:'' @ [CHR 0x0A])
             # concat (map (\<lambda>(k, v). [Str ''  '', Str k, Str '': '', Dbl v, Str [CHR 0x0A]])
                         (metrics event)))"

definition build_incident ::
  "IncidentManager \<Rightarrow> timestamp_t \<Rightarrow> LogEvent \<Rightarrow> Correlation list \<Rightarrow> string list \<Rightarrow> Incident" where
  "build_incident m now event correlations matched_patterns =
     (let sev = calculate_severity (config m) (anomaly_score event)
                  (length matched_patterns) (length correlations)
      in \<lparr>incident_id = generate_incident_id (next_incident_id m),
          title = incident_title event matched_patterns,
          description = incident_description event correlations matched_patterns,
          inc_severity = sev,
          status = OPEN,
          created_at = now,
          resolved_at = None,
          event_ids = event_id event # concat (map corr_event_ids correlations),
          root_cause = None,
          root_cause_event_id = None,
          inc_anomaly_score = anomaly_score event,
          affected_services_count = (if service_name event = [] then 0 else 1),
          affected_users_count = None,
          labels =
            (let l1 = AList.update ''severity'' (incident_severity_to_string sev) [];
                 l2 = AList.update ''event_type'' (event_type event) l1
             in if service_name event = [] then l2
                else AList.update ''service'' (service_name event) l2),
          inc_tags = (if anomaly_score event \<ge> 0.9 then [''critical-anomaly''] else [])
                     @ map (\<lambda>p. ''pattern:'' @ p) matched_patterns,
          jira_ticket_id = None,
          pagerduty_incident_id = None\<rparr>)"

text \<open>The number of entries of the new incident's \<^verbatim>\<open>event_ids\<close> found in the existing set.\<close>

definition overlap :: "nat list \<Rightarrow> nat list \<Rightarrow> nat" where
  "overlap existing_ids new_ids = length (filter (\<lambda>i. i \<in> set existing_ids) new_ids)"

fun find_duplicate_in :: "duration_t \<Rightarrow> Incident \<Rightarrow> (string \<times> Incident) list \<Rightarrow> string option" where
  "find_duplicate_in window incident [] = None"
| "find_duplicate_in window incident ((k, existing) # rest) =
     (if created_at existing < created_at incident - window
        then find_duplicate_in window incident rest
      else if status existing = RESOLVED \<or> status existing = CLOSED
        then find_duplicate_in window incident rest
      else if title existing = title incident \<and> inc_severity existing = inc_severity incident
        then Some k
      else if overlap (event_ids existing) (event_ids incident) > length (event_ids incident) div 2
        then Some k
      else find_duplicate_in window incident rest)"

definition find_duplicate :: "IncidentManager \<Rightarrow> Incident \<Rightarrow> string option" where
  "find_duplicate m incident =
     find_duplicate_in (deduplication_window (config m)) incident (incidents m)"

text \<open>
  What a call of the manager leaves behind: the manager, the integrations and callbacks
  called (in order), and the value returned, or \<open>Propagated\<close> when an exception left the
  function.
\<close>

datatype 'a outcome = Returned 'a | Propagated

record 'a call =
  mgr :: IncidentManager
  notified :: "string list"
  ret :: "'a outcome"

definition store_and_notify :: "IncidentManager \<Rightarrow> Incident \<Rightarrow> Incident call" where
  "store_and_notify m incident =
     (let st = stats m;
          m' = m\<lparr>incidents := AList.update (incident_id incident) incident (incidents m),
                 stats := st\<lparr>total_created := total_created st + 1,
                            currently_open := currently_open st + 1\<rparr>\<rparr>;
          (called1, r1) = notify_created (integrations m') incident
      in if r1 = Throws then \<lparr>mgr = m', notified = called1, ret = Propagated\<rparr>
         else let (called2, r2) = invoke_all (on_created_callbacks m') incident
              in \<lparr>mgr = m', notified = called1 @ called2,
                  ret = (if r2 = Throws then Propagated else Returned incident)\<rparr>)"

definition evaluate_event ::
  "IncidentManager \<Rightarrow> timestamp_t \<Rightarrow> LogEvent \<Rightarrow> Correlation list \<Rightarrow> string list
   \<Rightarrow> Incident option call" where
  "evaluate_event m now event correlations matched_patterns =
     (if \<not> should_create (config m) event correlations matched_patterns
        then \<lparr>mgr = m, notified = [], ret = Returned None\<rparr>
      else
        let incident = build_incident m now event correlations matched_patterns;
            m1 = m\<lparr>next_incident_id := next_incident_id m + 1\<rparr>
        in if enable_deduplication (config m1) \<and> find_duplicate m1 incident \<noteq> None
             then \<lparr>mgr = m1\<lparr>stats := (stats m1)\<lparr>deduplicated := deduplicated (stats m1) + 1\<rparr>\<rparr>,
                   notified = [], ret = Returned None\<rparr>
           else let c = store_and_notify m1 incident
                in \<lparr>mgr = mgr c, notified = notified c,
                    ret = (case ret c of Returned i \<Rightarrow> Returned (Some i) | Propagated \<Rightarrow> Propagated)\<rparr>)"

definition create_incident ::
  "IncidentManager \<Rightarrow> timestamp_t \<Rightarrow> string \<Rightarrow> ostream \<Rightarrow> IncidentSeverity \<Rightarrow> nat list
   \<Rightarrow> Incident call" where
  "create_incident m now ttl descr sev ids =
     (let incident =
            \<lparr>incident_id = generate_incident_id (next_incident_id m),
             title = ttl, description = descr, inc_severity = sev, status = OPEN,
             created_at = now, resolved_at = None, event_ids = ids, root_cause = None,
             root_cause_event_id = None, inc_anomaly_score = 0, affected_services_count = 0,
             affected_users_count = Some 0, labels = [], inc_tags = [],
             jira_ticket_id = None, pagerduty_incident_id = None\<rparr>
      in store_and_notify (m\<lparr>next_incident_id := next_incident_id m + 1\<rparr>) incident)"

definition update_status :: "IncidentManager \<Rightarrow> string \<Rightarrow> IncidentStatus \<Rightarrow> IncidentManager" where
  "update_status m k new_status =
     (case map_of (incidents m) k of
        None \<Rightarrow> m
      | Some i \<Rightarrow> m\<lparr>incidents := AList.update k (i\<lparr>status := new_status\<rparr>) (incidents m)\<rparr>)"

text \<open>
  The three calls of one integration stand in one \<^verbatim>\<open>try\<close> block: a \<^verbatim>\<open>std::exception\<close>
  skips the rest of the block, any other exception leaves \<^verbatim>\<open>resolve_incident\<close>.
\<close>

definition resolve_calls :: "Incident \<Rightarrow> string \<Rightarrow> string list" where
  "resolve_calls i k =
     (case jira_ticket_id i of None \<Rightarrow> [] | Some j \<Rightarrow> [j])
     @ (case pagerduty_incident_id i of None \<Rightarrow> [] | Some p \<Rightarrow> [p])
     @ [''SLACK-'' @ k]"

fun resolve_block :: "IncidentIntegration \<Rightarrow> string list \<Rightarrow> string \<Rightarrow> call_result" where
  "resolve_block g [] resolution = Returns"
| "resolve_block g (x # xs) resolution =
     (case integ_resolve_incident g x resolution of
        Done _ \<Rightarrow> resolve_block g xs resolution
      | StdException \<Rightarrow> Returns
      | OtherException \<Rightarrow> Throws)"

fun notify_resolved ::
  "IncidentIntegration list \<Rightarrow> string list \<Rightarrow> string \<Rightarrow> string list \<times> call_result" where
  "notify_resolved [] xs resolution = ([], Returns)"
| "notify_resolved (g # gs) xs resolution =
     (case resolve_block g xs resolution of
        Throws \<Rightarrow> ([integ_name g], Throws)
      | Returns \<Rightarrow> (let (called, r) = notify_resolved gs xs resolution
                    in (integ_name g # called, r)))"

definition resolve_incident ::
  "IncidentManager \<Rightarrow> timestamp_t \<Rightarrow> string \<Rightarrow> string \<Rightarrow> unit call" where
  "resolve_incident m now k resolution =
     (case map_of (incidents m) k of
        None \<Rightarrow> \<lparr>mgr = m, notified = [], ret = Returned ()\<rparr>
      | Some i \<Rightarrow>
          let i' = i\<lparr>status := RESOLVED, resolved_at := Some now, root_cause := Some resolution\<rparr>;
              st = stats m;
              m' = m\<lparr>incidents := AList.update k i' (incidents m),
                     stats := st\<lparr>currently_open := currently_open st - 1,
                                resolved := resolved st + 1\<rparr>\<rparr>;
              (called1, r1) = notify_resolved (integrations m') (resolve_calls i' k) resolution
          in if r1 = Throws then \<lparr>mgr = m', notified = called1, ret = Propagated\<rparr>
             else let (called2, r2) = invoke_all (on_resolved_callbacks m') i'
                  in \<lparr>mgr = m', notified = called1 @ called2,
                      ret = (if r2 = Throws then Propagated else Returned ())\<rparr>)"

text \<open>
  \<^verbatim>\<open>auto_resolve_stale_incidents\<close> reads the clock for the cutoff (\<open>now\<close>) and again at each
  resolution; the later readings are one value \<open>now'\<close>.
\<close>

fun auto_resolve_loop ::
  "timestamp_t \<Rightarrow> timestamp_t \<Rightarrow> (string \<times> Incident) list \<Rightarrow> ManagerStats
   \<Rightarrow> (string \<times> Incident) list \<times> ManagerStats" where
  "auto_resolve_loop cutoff now' [] st = ([], st)"
| "auto_resolve_loop cutoff now' ((k, i) # rest) st =
     (if (status i = OPEN \<or> status i = INVESTIGATING) \<and> created_at i < cutoff
      then let i' = i\<lparr>status := RESOLVED, resolved_at := Some now',
                      root_cause := Some ''Auto-resolved: no further activity''\<rparr>;
               st' = st\<lparr>currently_open := currently_open st - 1, resolved := resolved st + 1\<rparr>;
               (rest', st'') = auto_resolve_loop cutoff now' rest st'
           in ((k, i') # rest', st'')
      else let (rest', st'') = auto_resolve_loop cutoff now' rest st
           in ((k, i) # rest', st''))"

definition auto_resolve_stale_incidents ::
  "IncidentManager \<Rightarrow> timestamp_t \<Rightarrow> timestamp_t \<Rightarrow> IncidentManager" where
  "auto_resolve_stale_incidents m now now' =
     (if \<not> enable_auto_resolution (config m) then m
      else let (incs, st) = auto_resolve_loop (now - resolution_timeout (config m)) now'
                               (incidents m) (stats m)
           in m\<lparr>incidents := incs, stats := st\<rparr>)"

definition register_integration :: "IncidentManager \<Rightarrow> IncidentIntegration \<Rightarrow> IncidentManager" where
  "register_integration m g = m\<lparr>integrations := integrations m @ [g]\<rparr>"

definition on_incident_created :: "IncidentManager \<Rightarrow> Incident callback \<Rightarrow> IncidentManager" where
  "on_incident_created m cb = m\<lparr>on_created_callbacks := on_created_callbacks m @ [cb]\<rparr>"

definition on_incident_resolved :: "IncidentManager \<Rightarrow> Incident callback \<Rightarrow> IncidentManager" where
  "on_incident_resolved m cb = m\<lparr>on_resolved_callbacks := on_resolved_callbacks m @ [cb]\<rparr>"

subsection \<open>Sequences of manager operations\<close>

text \<open>
  The public operations of the manager, each with the clock readings it takes, and the
  manager after a sequence of them. An exception that leaves an operation is caught by
  the caller; the manager keeps the state it had reached.
\<close>

datatype manager_op =
    EvaluateEvent timestamp_t LogEvent "Correlation list" "string list"
  | CreateIncident timestamp_t string ostream IncidentSeverity "nat list"
  | UpdateStatus string IncidentStatus
  | ResolveIncident timestamp_t string string
  | AutoResolveStale timestamp_t timestamp_t
  | RegisterIntegration IncidentIntegration
  | OnIncidentCreated "Incident callback"
  | OnIncidentResolved "Incident callback"

fun apply_op :: "IncidentManager \<Rightarrow> manager_op \<Rightarrow> IncidentManager" where
  "apply_op m (EvaluateEvent now e cs ps) = mgr (evaluate_event m now e cs ps)"
| "apply_op m (CreateIncident now ttl descr sev ids) = mgr (create_incident m now ttl descr sev ids)"
| "apply_op m (UpdateStatus k s) = update_status m k s"
| "apply_op m (ResolveIncident now k resolution) = mgr (resolve_incident m now k resolution)"
| "apply_op m (AutoResolveStale now now') = auto_resolve_stale_incidents m now now'"
| "apply_op m (RegisterIntegration g) = register_integration m g"
| "apply_op m (OnIncidentCreated cb) = on_incident_created m cb"
| "apply_op m (OnIncidentResolved cb) = on_incident_resolved m cb"

definition run_ops :: "IncidentManager \<Rightarrow> manager_op list \<Rightarrow> IncidentManager" where
  "run_ops m ops = foldl apply_op m ops"

text \<open>The invariant the specification states for one incident.\<close>

definition resolved_at_consistent :: "Incident \<Rightarrow> bool" where
  "resolved_at_consistent i =
     ((resolved_at i \<noteq> None) = (status i = RESOLVED)
      \<and> (case resolved_at i of None \<Rightarrow> True | Some r \<Rightarrow> created_at i \<le> r))"

text \<open>
  The runs on which the other operations are studied: the clock readings never decrease,
  and no \<^verbatim>\<open>update_status\<close> moves an incident into or out of \<open>RESOLVED\<close>.
\<close>

fun op_admissible :: "timestamp_t \<Rightarrow> IncidentManager \<Rightarrow> manager_op \<Rightarrow> bool" where
  "op_admissible t m (EvaluateEvent now e cs ps) = (t \<le> now)"
| "op_admissible t m (CreateIncident now ttl descr sev ids) = (t \<le> now)"
| "op_admissible t m (UpdateStatus k s) =
     (s \<noteq> RESOLVED \<and> (case map_of (incidents m) k of None \<Rightarrow> True | Some i \<Rightarrow> status i \<noteq> RESOLVED))"
| "op_admissible t m (ResolveIncident now k resolution) = (t \<le> now)"
| "op_admissible t m (AutoResolveStale now now') = (t \<le> now \<and> now \<le> now')"
| "op_admissible t m _ = True"

fun op_clock :: "timestamp_t \<Rightarrow> manager_op \<Rightarrow> timestamp_t" where
  "op_clock t (EvaluateEvent now e cs ps) = now"
| "op_clock t (CreateIncident now ttl descr sev ids) = now"
| "op_clock t (ResolveIncident now k resolution) = now"
| "op_clock t (AutoResolveStale now now') = now'"
| "op_clock t _ = t"

fun admissible :: "timestamp_t \<Rightarrow> IncidentManager \<Rightarrow> manager_op list \<Rightarrow> bool" where
  "admissible t m [] = True"
| "admissible t m (x # xs) = (op_admissible t m x \<and> admissible (op_clock t x) (apply_op m x) xs)"

section \<open>Pattern engine (pattern_engine.h, pattern_engine.cpp)\<close>

text \<open>
  \<^verbatim>\<open>std::regex_search\<close> belongs to the standard library: the model takes it as the
  parameter \<open>rx\<close>, from the pattern text and the subject to whether the pattern is found.
\<close>

type_synonym regex_search = "string \<Rightarrow> string \<Rightarrow> bool"

record Step =
  step_event_type :: string
  required_entities :: "string list"
  entity_matcher :: "string option"
  max_time_since_prev :: duration_t

record SequentialPattern =
  seq_name :: string
  steps :: "Step list"
  match_count :: "64 word"

definition matches_step :: "regex_search \<Rightarrow> LogEvent \<Rightarrow> Step \<Rightarrow> bool" where
  "matches_step rx event step =
     (event_type event = step_event_type step
      \<and> list_all (\<lambda>required. map_of (entities event) required \<noteq> None) (required_entities step)
      \<and> (case entity_matcher step of
            None \<Rightarrow> True
          | Some pat \<Rightarrow> list_ex (\<lambda>(k, v). rx pat v) (entities event)))"

text \<open>
  The loop of \<^verbatim>\<open>SequentialPattern::match\<close> over the context, newest event first. It
  leaves through \<^verbatim>\<open>return 1.0\<close> (\<open>Complete\<close>) or ends, by its condition or by \<^verbatim>\<open>break\<close>,
  with \<^verbatim>\<open>current_step\<close> steps still to find (\<open>Remaining\<close>).
\<close>

datatype walk_result = Complete | Remaining nat

fun walk ::
  "regex_search \<Rightarrow> Step list \<Rightarrow> nat \<Rightarrow> timestamp_t \<Rightarrow> LogEvent list \<Rightarrow> walk_result" where
  "walk rx sts current_step current_time [] = Remaining current_step"
| "walk rx sts current_step current_time (e # es) =
     (if \<not> current_step > 0 then Remaining current_step
      else let prev_step = sts ! (current_step - 1) in
        if current_time - timestamp e > max_time_since_prev prev_step
          then Remaining current_step
        else if matches_step rx e prev_step
          then (if current_step - 1 = 0 then Complete
                else walk rx sts (current_step - 1) (timestamp e) es)
        else walk rx sts current_step current_time es)"

definition sequential_match ::
  "regex_search \<Rightarrow> SequentialPattern \<Rightarrow> LogEvent \<Rightarrow> LogEvent list
   \<Rightarrow> real \<times> SequentialPattern" where
  "sequential_match rx p event ctx =
     (if steps p = [] then (0, p)
      else if \<not> matches_step rx event (last (steps p)) then (0, p)
      else if length (steps p) = 1 then (1, p\<lparr>match_count := match_count p + 1\<rparr>)
      else case walk rx (steps p) (length (steps p) - 1) (timestamp event) (rev ctx) of
             Complete \<Rightarrow> (1, p\<lparr>match_count := match_count p + 1\<rparr>)
           | Remaining current_step \<Rightarrow>
               ((1 - real current_step / real (length (steps p))) * 0.5, p))"

text \<open>The separator of the step names, as the bytes of the source file.\<close>

definition arrow :: string where
  "arrow = [CHR 0x20, CHR 0xC3, CHR 0xA2, CHR 0xE2, CHR 0x80, CHR 0xA0, CHR 0xE2, CHR 0x80,
            CHR 0x99, CHR 0x20]"

fun join_steps :: "Step list \<Rightarrow> string" where
  "join_steps [] = []"
| "join_steps [s] = step_event_type s"
| "join_steps (s # ss) = step_event_type s @ arrow @ join_steps ss"

definition sequential_description :: "SequentialPattern \<Rightarrow> string" where
  "sequential_description p =
     ''Sequential pattern: '' @ join_steps (steps p)
     @ '' (matched '' @ dec (unat (match_count p)) @ '' times)''"

datatype FrequencyType = BURST | REPEATED | ABSENCE

text \<open>
  \<^verbatim>\<open>entity_times_\<close> is only read through \<^verbatim>\<open>operator[]\<close>, which makes an empty deque
  for a new key: it is a total function with the empty list as default.
\<close>

record FrequencyPattern =
  freq_name :: string
  freq_event_type :: string
  freq_type :: FrequencyType
  threshold :: nat
  window :: duration_t
  event_times :: "timestamp_t list"
  entity_times :: "string \<Rightarrow> timestamp_t list"

text \<open>\<^verbatim>\<open>while (!q.empty() && q.front() < cutoff) q.pop_front();\<close>\<close>

definition drop_old :: "timestamp_t \<Rightarrow> timestamp_t list \<Rightarrow> timestamp_t list" where
  "drop_old cutoff q = dropWhile (\<lambda>t. t < cutoff) q"

fun repeated_loop ::
  "timestamp_t \<Rightarrow> nat \<Rightarrow> (string \<times> string) list \<Rightarrow> (string \<Rightarrow> timestamp_t list)
   \<Rightarrow> real \<times> (string \<Rightarrow> timestamp_t list)" where
  "repeated_loop cutoff thr [] et = (0, et)"
| "repeated_loop cutoff thr ((entity_key, entity_value) # rest) et =
     (let times = drop_old cutoff (et entity_value);
          et' = et(entity_value := times)
      in if length times \<ge> thr then (1, et') else repeated_loop cutoff thr rest et')"

text \<open>
  In the burst score the division by a threshold of zero is \<^verbatim>\<open>+inf\<close> in the source, and
  \<^verbatim>\<open>std::min(1.0, +inf)\<close> is 1.
\<close>

definition frequency_match ::
  "FrequencyPattern \<Rightarrow> LogEvent \<Rightarrow> LogEvent list \<Rightarrow> real \<times> FrequencyPattern" where
  "frequency_match p event ctx =
     (if event_type event \<noteq> freq_event_type p then (0, p)
      else
        let cutoff = timestamp event - window p;
            p1 = p\<lparr>event_times := drop_old cutoff (event_times p)\<rparr>;
            count = length (event_times p1)
        in case freq_type p of
             BURST \<Rightarrow>
               (if count \<ge> threshold p
                then (if threshold p = 0 then 1
                      else min 1 (0.7 + (real (count - threshold p + 1) / real (threshold p)) * 0.3),
                      p1)
                else (0, p1))
           | REPEATED \<Rightarrow>
               (let (s, et) = repeated_loop cutoff (threshold p) (entities event) (entity_times p1)
                in (s, p1\<lparr>entity_times := et\<rparr>))
           | ABSENCE \<Rightarrow> (0, p1))"

definition frequency_train :: "FrequencyPattern \<Rightarrow> LogEvent \<Rightarrow> FrequencyPattern" where
  "frequency_train p event =
     (if event_type event \<noteq> freq_event_type p then p
      else p\<lparr>event_times := event_times p @ [timestamp event],
             entity_times :=
               foldl (\<lambda>et (k, v). et(v := et v @ [timestamp event])) (entity_times p)
                 (entities event)\<rparr>)"

definition frequency_description :: "FrequencyPattern \<Rightarrow> string" where
  "frequency_description p =
     ''Frequency pattern: '' @ freq_event_type p
     @ (case freq_type p of
          BURST \<Rightarrow> '' (burst detection, threshold='' @ dec (threshold p) @ '')''
        | REPEATED \<Rightarrow> '' (repeated entity, threshold='' @ dec (threshold p) @ '')''
        | ABSENCE \<Rightarrow> '' (absence detection)'')"

record RegexPattern =
  regex_name :: string
  regex_pattern :: string
  regex_field :: string

definition regex_match :: "regex_search \<Rightarrow> RegexPattern \<Rightarrow> LogEvent \<Rightarrow> real" where
  "regex_match rx p event =
     (if regex_field p = ''message''
        then (if rx (regex_pattern p) (message event) then 1 else 0)
      else if regex_field p = ''event_type''
        then (if rx (regex_pattern p) (event_type event) then 1 else 0)
      else case map_of (entities event) (regex_field p) of
             None \<Rightarrow> 0
           | Some v \<Rightarrow> (if rx (regex_pattern p) v then 1 else 0))"

definition regex_description :: "RegexPattern \<Rightarrow> string" where
  "regex_description p =
     ''Regex pattern: '' @ regex_pattern p @ '' in field '' @ [CHR 0x27] @ regex_field p @ [CHR 0x27]"

text \<open>The three matchers of the library behind the interface \<^verbatim>\<open>PatternMatcher\<close>.\<close>

datatype PatternMatcher =
    Sequential SequentialPattern
  | Frequency FrequencyPattern
  | Regex RegexPattern

fun pattern_match ::
  "regex_search \<Rightarrow> PatternMatcher \<Rightarrow> LogEvent \<Rightarrow> LogEvent list \<Rightarrow> real \<times> PatternMatcher" where
  "pattern_match rx (Sequential p) event ctx =
     (let (s, p') = sequential_match rx p event ctx in (s, Sequential p'))"
| "pattern_match rx (Frequency p) event ctx =
     (let (s, p') = frequency_match p event ctx in (s, Frequency p'))"
| "pattern_match rx (Regex p) event ctx = (regex_match rx p event, Regex p)"

fun pattern_train :: "PatternMatcher \<Rightarrow> LogEvent \<Rightarrow> PatternMatcher" where
  "pattern_train (Sequential p) event = Sequential p"
| "pattern_train (Frequency p) event = Frequency (frequency_train p event)"
| "pattern_train (Regex p) event = Regex p"

fun pattern_name :: "PatternMatcher \<Rightarrow> string" where
  "pattern_name (Sequential p) = seq_name p"
| "pattern_name (Frequency p) = freq_name p"
| "pattern_name (Regex p) = regex_name p"

fun pattern_description :: "PatternMatcher \<Rightarrow> string" where
  "pattern_description (Sequential p) = sequential_description p"
| "pattern_description (Frequency p) = frequency_description p"
| "pattern_description (Regex p) = regex_description p"

text \<open>
  A \<^verbatim>\<open>PatternMatch\<close> holds a pointer to the matcher: the model keeps the matcher as it is
  right after its \<^verbatim>\<open>match\<close> call.
\<close>

record PatternMatch =
  pm_pattern :: PatternMatcher
  pm_score :: real
  pm_description :: string

text \<open>The loop of \<^verbatim>\<open>match_patterns\<close>: the matches in registration order, and the matchers.\<close>

fun collect_matches ::
  "regex_search \<Rightarrow> PatternMatcher list \<Rightarrow> LogEvent \<Rightarrow> LogEvent list
   \<Rightarrow> PatternMatch list \<times> PatternMatcher list" where
  "collect_matches rx [] event ctx = ([], [])"
| "collect_matches rx (p # ps) event ctx =
     (let (score, p') = pattern_match rx p event ctx;
          (ms, ps') = collect_matches rx ps event ctx
      in ((if score > 0.5
           then [\<lparr>pm_pattern = p', pm_score = score, pm_description = pattern_description p'\<rparr>]
           else []) @ ms,
          p' # ps'))"

text \<open>
  \<^verbatim>\<open>std::sort\<close> with the comparison \<^verbatim>\<open>a.score > b.score\<close>. The order it gives to matches
  of equal score is not specified; the model takes the stable one.
\<close>

definition sort_by_score :: "PatternMatch list \<Rightarrow> PatternMatch list" where
  "sort_by_score ms = sort_key (\<lambda>m. - pm_score m) ms"

definition match_patterns ::
  "regex_search \<Rightarrow> PatternMatcher list \<Rightarrow> LogEvent \<Rightarrow> LogEvent list
   \<Rightarrow> PatternMatch list \<times> PatternMatcher list" where
  "match_patterns rx patterns event ctx =
     (let (ms, patterns') = collect_matches rx patterns event ctx
      in (sort_by_score ms, patterns'))"

definition train_all :: "PatternMatcher list \<Rightarrow> LogEvent \<Rightarrow> PatternMatcher list" where
  "train_all patterns event = map (\<lambda>p. pattern_train p event) patterns"

definition new_step :: "string \<Rightarrow> duration_t \<Rightarrow> Step" where
  "new_step ty max_time =
     \<lparr>step_event_type = ty, required_entities = [], entity_matcher = None,
      max_time_since_prev = max_time\<rparr>"

definition seconds :: "int \<Rightarrow> duration_t" where
  "seconds n = n * 1000000000"

definition cascading_failure :: PatternMatcher where
  "cascading_failure =
     Sequential \<lparr>seq_name = ''cascading_failure'',
                 steps = [new_step ''database.slow'' (seconds 10),
                          new_step ''api.timeout'' (seconds 5),
                          new_step ''user.error'' (seconds 3)],
                 match_count = 0\<rparr>"

definition auth_failure_pattern :: PatternMatcher where
  "auth_failure_pattern =
     Frequency \<lparr>freq_name = ''auth_failure_burst'', freq_event_type = ''auth.failed'',
                freq_type = REPEATED, threshold = 5, window = seconds 60,
                event_times = [], entity_times = (\<lambda>_. [])\<rparr>"

definition retry_storm :: PatternMatcher where
  "retry_storm =
     Frequency \<lparr>freq_name = ''retry_storm'', freq_event_type = ''api.retry'',
                freq_type = BURST, threshold = 10, window = seconds 30,
                event_times = [], entity_times = (\<lambda>_. [])\<rparr>"

definition exception_pattern :: PatternMatcher where
  "exception_pattern =
     Regex \<lparr>regex_name = ''exception_detected'',
            regex_pattern = ''Exception|Error|Traceback|at '' @ [CHR 0x5C] @ ''w+'' @ [CHR 0x5C]
                            @ ''.'' @ [CHR 0x5C] @ ''w+'' @ [CHR 0x5C] @ ''('',
            regex_field = ''message''\<rparr>"

definition builtin_patterns :: "PatternMatcher list" where
  "builtin_patterns = [cascading_failure, auth_failure_pattern, retry_storm, exception_pattern]"


section \<open>Causality analyzer (correlation_engine.h, correlation_engine.cpp)\<close>

datatype CausalityType = CAUSES | PREVENTS | ENABLES | PRECEDES

record CausalRelationship =
  cause_event_type :: string
  effect_event_type :: string
  causality_type :: CausalityType
  strength :: real
  typical_delay :: duration_t
  observed_count :: "64 word"

text \<open>
  \<^verbatim>\<open>relationships_\<close> is an \<^verbatim>\<open>unordered_map\<close> from the pair of event types to the
  relationship. \<^verbatim>\<open>relationships_[pair]\<close> makes a value-initialised (all zero) entry for a
  new key. The member \<^verbatim>\<open>type\<close> is the field \<open>causality_type\<close>.
\<close>

type_synonym relationships = "string \<times> string \<Rightarrow> CausalRelationship option"

definition zero_relationship :: CausalRelationship where
  "zero_relationship =
     \<lparr>cause_event_type = [], effect_event_type = [], causality_type = CAUSES, strength = 0,
      typical_delay = 0, observed_count = 0\<rparr>"

text \<open>
  \<^verbatim>\<open>observed_count\<close> is a \<^verbatim>\<open>uint64_t\<close>: \<^verbatim>\<open>observed_count++\<close> wraps from \<open>2^64 - 1\<close> to 0.
  \<^verbatim>\<open>(typical_delay * (observed_count - 1) + delay) / observed_count\<close>: the product of a
  signed 64-bit duration and a \<^verbatim>\<open>uint64_t\<close> is a duration over \<^verbatim>\<open>uint64_t\<close>, so the sum
  and the division are unsigned 64-bit operations, and the quotient is converted back to
  the signed \<^verbatim>\<open>duration_t\<close>. \<open>u64\<close> is the value modulo \<open>2^64\<close>, \<open>s64\<close> the signed reading
  of it. The divisor is the count after the increment; where it has wrapped to 0 the
  division has no result (\<open>learn_one\<close> is \<open>None\<close> there).
\<close>

definition u64 :: "int \<Rightarrow> int" where
  "u64 x = x mod 2 ^ 64"

definition s64 :: "int \<Rightarrow> int" where
  "s64 x = (if u64 x < 2 ^ 63 then u64 x else u64 x - 2 ^ 64)"

definition running_mean :: "duration_t \<Rightarrow> 64 word \<Rightarrow> duration_t \<Rightarrow> duration_t" where
  "running_mean typical n delay = s64 (u64 (u64 (typical * uint (n - 1)) + delay) div uint n)"

text \<open>
  The body of the loop of \<^verbatim>\<open>CausalityAnalyzer::learn\<close> for one prior event in the window.
  \<open>None\<close> is the division by zero, after which the call gives no result.
\<close>

definition learn_one :: "relationships \<Rightarrow> LogEvent \<Rightarrow> LogEvent \<Rightarrow> relationships option" where
  "learn_one rels event prev_event =
     (let pair = (event_type prev_event, event_type event);
          rel0 = (case rels pair of None \<Rightarrow> zero_relationship | Some r \<Rightarrow> r);
          rel1 = (if observed_count rel0 = 0
                  then rel0\<lparr>cause_event_type := event_type prev_event,
                            effect_event_type := event_type event,
                            causality_type := PRECEDES,
                            strength := 0.1,
                            typical_delay := timestamp event - timestamp prev_event\<rparr>
                  else rel0);
          n = observed_count rel1 + 1;
          delay = timestamp event - timestamp prev_event
      in if n = 0 then None
         else Some (rels(pair \<mapsto> rel1\<lparr>observed_count := n,
                                         typical_delay := running_mean (typical_delay rel1) n delay,
                                         strength := min 1 (strength rel1 + 0.05)\<rparr>)))"

fun learn :: "relationships \<Rightarrow> LogEvent \<Rightarrow> LogEvent list \<Rightarrow> relationships option" where
  "learn rels event [] = Some rels"
| "learn rels event (prev_event # rest) =
     (if timestamp prev_event < timestamp event - seconds 60 then learn rels event rest
      else case learn_one rels event prev_event of
             None \<Rightarrow> None
           | Some rels1 \<Rightarrow> learn rels1 event rest)"

section \<open>Anomaly detectors (anomaly_detector.h, anomaly_detector.cpp)\<close>

text \<open>The constant \<^verbatim>\<open>1e-6\<close> of the source.\<close>

definition eps :: real where
  "eps = 1 / 1000000"

subsection \<open>Z-score detector\<close>

record Stats =
  mean :: real
  m2 :: real
  count :: nat

definition stddev :: "Stats \<Rightarrow> real" where
  "stddev st = (if count st > 1 then sqrt (m2 st / real (count st - 1)) else 0)"

record ZScoreDetector =
  metric_stats :: "string \<Rightarrow> Stats option"
  z_threshold :: real

definition new_zscore :: "real \<Rightarrow> ZScoreDetector" where
  "new_zscore th = \<lparr>metric_stats = Map.empty, z_threshold = th\<rparr>"

text \<open>
  The loop of \<^verbatim>\<open>ZScoreDetector::score\<close> over the metrics of the event, with the running
  \<^verbatim>\<open>max_zscore\<close>; \<^verbatim>\<open>return 1.0\<close> leaves it at once.
\<close>

fun zscore_loop :: "ZScoreDetector \<Rightarrow> (string \<times> real) list \<Rightarrow> real \<Rightarrow> real" where
  "zscore_loop d [] max_zscore = max_zscore"
| "zscore_loop d ((metric_name, v) # rest) max_zscore =
     (case metric_stats d metric_name of
        None \<Rightarrow> zscore_loop d rest max_zscore
      | Some st \<Rightarrow>
          if count st < 30 then zscore_loop d rest max_zscore
          else if stddev st < eps
            then (if \<bar>v - mean st\<bar> > eps then 1 else zscore_loop d rest max_zscore)
          else let zscore = \<bar>v - mean st\<bar> / stddev st;
                   normalized = tanh (zscore / z_threshold d)
               in zscore_loop d rest (max max_zscore normalized))"

definition zscore_score :: "ZScoreDetector \<Rightarrow> LogEvent \<Rightarrow> real" where
  "zscore_score d event = (if metrics event = [] then 0 else zscore_loop d (metrics event) 0)"

text \<open>\<^verbatim>\<open>metric_stats_[metric_name]\<close> starts a new metric from the all-zero statistics.\<close>

definition welford :: "Stats \<Rightarrow> real \<Rightarrow> Stats" where
  "welford st v =
     (let n = count st + 1;
          delta = v - mean st;
          mean' = mean st + delta / real n;
          delta2 = v - mean'
      in \<lparr>mean = mean', m2 = m2 st + delta * delta2, count = n\<rparr>)"

definition zscore_train :: "ZScoreDetector \<Rightarrow> LogEvent \<Rightarrow> ZScoreDetector" where
  "zscore_train d event =
     d\<lparr>metric_stats :=
         foldl (\<lambda>ms (metric_name, v).
                  ms(metric_name \<mapsto>
                       welford (case ms metric_name of
                                  None \<Rightarrow> \<lparr>mean = 0, m2 = 0, count = 0\<rparr>
                                | Some st \<Rightarrow> st) v))
           (metric_stats d) (metrics event)\<rparr>"

subsection \<open>Moving-average detector\<close>

record History =
  history_values :: "real list"
  history_sum :: real

record MovingAverageDetector =
  metric_history :: "string \<Rightarrow> History option"
  window_size :: nat
  ma_threshold :: real

definition new_moving_average :: "nat \<Rightarrow> real \<Rightarrow> MovingAverageDetector" where
  "new_moving_average w th = \<lparr>metric_history = Map.empty, window_size = w, ma_threshold = th\<rparr>"

fun moving_average_loop ::
  "MovingAverageDetector \<Rightarrow> (string \<times> real) list \<Rightarrow> real \<Rightarrow> real" where
  "moving_average_loop d [] max_deviation = max_deviation"
| "moving_average_loop d ((metric_name, v) # rest) max_deviation =
     (case metric_history d metric_name of
        None \<Rightarrow> moving_average_loop d rest max_deviation
      | Some h \<Rightarrow>
          if length (history_values h) < 10 then moving_average_loop d rest max_deviation
          else
            let n = real (length (history_values h));
                avg = history_sum h / n;
                mad = sum_list (map (\<lambda>x. \<bar>x - avg\<bar>) (history_values h)) / n
            in if mad < eps
                 then (if \<bar>v - avg\<bar> > eps then 1
                       else moving_average_loop d rest max_deviation)
               else let deviation = \<bar>v - avg\<bar> / (ma_threshold d * mad)
                    in moving_average_loop d rest (max max_deviation (tanh deviation)))"

definition moving_average_score :: "MovingAverageDetector \<Rightarrow> LogEvent \<Rightarrow> real" where
  "moving_average_score d event =
     (if metrics event = [] then 0 else moving_average_loop d (metrics event) 0)"

definition push_sample :: "nat \<Rightarrow> History \<Rightarrow> real \<Rightarrow> History" where
  "push_sample w h v =
     (let vs = history_values h @ [v];
          s = history_sum h + v
      in if length vs > w then \<lparr>history_values = tl vs, history_sum = s - hd vs\<rparr>
         else \<lparr>history_values = vs, history_sum = s\<rparr>)"

definition moving_average_train :: "MovingAverageDetector \<Rightarrow> LogEvent \<Rightarrow> MovingAverageDetector" where
  "moving_average_train d event =
     d\<lparr>metric_history :=
         foldl (\<lambda>mh (metric_name, v).
                  mh(metric_name \<mapsto>
                       push_sample (window_size d)
                         (case mh metric_name of
                            None \<Rightarrow> \<lparr>history_values = [], history_sum = 0\<rparr>
                          | Some h \<Rightarrow> h) v))
           (metric_history d) (metrics event)\<rparr>"

subsection \<open>Rate detector\<close>

record RateStats =
  rate_timestamps :: "timestamp_t list"
  baseline_rate :: real

record RateDetector =
  event_rates :: "string \<Rightarrow> RateStats option"
  window_duration :: duration_t

definition new_rate :: "duration_t \<Rightarrow> RateDetector" where
  "new_rate w = \<lparr>event_rates = Map.empty, window_duration = w\<rparr>"

text \<open>\<^verbatim>\<open>std::chrono::duration<double>(window_duration_).count()\<close>: the window in seconds.\<close>

definition window_seconds :: "RateDetector \<Rightarrow> real" where
  "window_seconds d = real_of_int (window_duration d) / 1000000000"

definition rate_stats_of :: "RateDetector \<Rightarrow> string \<Rightarrow> RateStats" where
  "rate_stats_of d ty =
     (case event_rates d ty of
        None \<Rightarrow> \<lparr>rate_timestamps = [], baseline_rate = 0\<rparr>
      | Some rs \<Rightarrow> rs)"

text \<open>The score of the ratio of the current rate to the baseline: a spike, a drop, or neither.\<close>

definition deviation_score :: "real \<Rightarrow> real" where
  "deviation_score ratio =
     (if ratio > 2 then min 1 ((ratio - 2) / 3)
      else if ratio < 0.5 then min 1 ((0.5 - ratio) / 0.5)
      else 0)"

text \<open>
  \<^verbatim>\<open>RateDetector::score\<close> changes the detector: \<^verbatim>\<open>event_rates_[event_type]\<close> makes the
  entry, and the old timestamps are dropped.
\<close>

definition rate_score :: "RateDetector \<Rightarrow> LogEvent \<Rightarrow> real \<times> RateDetector" where
  "rate_score d event =
     (let rs = rate_stats_of d (event_type event) in
      if rate_timestamps rs = [] then (0, d\<lparr>event_rates := (event_rates d)(event_type event \<mapsto> rs)\<rparr>)
      else
        let cutoff = timestamp event - window_duration d;
            rs' = rs\<lparr>rate_timestamps := drop_old cutoff (rate_timestamps rs)\<rparr>;
            d' = d\<lparr>event_rates := (event_rates d)(event_type event \<mapsto> rs')\<rparr>;
            current_rate = real (length (rate_timestamps rs')) / window_seconds d
        in if baseline_rate rs' < 0.1 then (0, d')
           else (deviation_score (current_rate / baseline_rate rs'), d'))"

definition rate_train :: "RateDetector \<Rightarrow> LogEvent \<Rightarrow> RateDetector" where
  "rate_train d event =
     (let rs = rate_stats_of d (event_type event);
          ts = rate_timestamps rs @ [timestamp event];
          cutoff = timestamp event - window_duration d;
          n = length (filter (\<lambda>t. t \<ge> cutoff) ts);
          current_rate = real n / window_seconds d;
          baseline = (if baseline_rate rs < 0.1 then current_rate
                      else 0.9 * baseline_rate rs + 0.1 * current_rate)
      in d\<lparr>event_rates := (event_rates d)(event_type event \<mapsto>
                               \<lparr>rate_timestamps = ts, baseline_rate = baseline\<rparr>)\<rparr>)"

subsection \<open>Ensemble\<close>

text \<open>The enumerator \<^verbatim>\<open>MAX\<close> is \<open>MAX_score\<close>.\<close>

datatype CombineMethod = MAX_score | AVERAGE | WEIGHTED | VOTING

text \<open>
  The detectors of the library behind the interface \<^verbatim>\<open>AnomalyDetector\<close>; an ensemble holds
  its children with their weights.
\<close>

datatype AnomalyDetector =
    ZScore ZScoreDetector
  | MovingAverage MovingAverageDetector
  | Rate RateDetector
  | Ensemble CombineMethod "(AnomalyDetector \<times> real) list"

text \<open>\<^verbatim>\<open>*std::max_element\<close> of the scores; the ensemble calls it on a non-empty vector only.\<close>

fun max_element :: "real list \<Rightarrow> real" where
  "max_element [] = 0"
| "max_element [x] = x"
| "max_element (x # y # ys) = max x (max_element (y # ys))"

definition combine :: "CombineMethod \<Rightarrow> real list \<Rightarrow> real list \<Rightarrow> real" where
  "combine method scores weights =
     (case method of
        MAX_score \<Rightarrow> max_element scores
      | AVERAGE \<Rightarrow> sum_list scores / real (length scores)
      | WEIGHTED \<Rightarrow>
          (let s = sum_list (map (\<lambda>(x, w). x * w) (zip scores weights));
               weight_sum = sum_list weights
           in if weight_sum > 0 then s / weight_sum else 0)
      | VOTING \<Rightarrow> real (length (filter (\<lambda>s. s \<ge> 0.5) scores)) / real (length scores))"

fun score :: "AnomalyDetector \<Rightarrow> LogEvent \<Rightarrow> real \<times> AnomalyDetector"
  and score_children ::
    "(AnomalyDetector \<times> real) list \<Rightarrow> LogEvent \<Rightarrow> real list \<times> (AnomalyDetector \<times> real) list"
  where
  "score (ZScore d) event = (zscore_score d event, ZScore d)"
| "score (MovingAverage d) event = (moving_average_score d event, MovingAverage d)"
| "score (Rate d) event = (let (s, d') = rate_score d event in (s, Rate d'))"
| "score (Ensemble method detectors) event =
     (if detectors = [] then (0, Ensemble method detectors)
      else let (scores, detectors') = score_children detectors event
           in (combine method scores (map snd detectors), Ensemble method detectors'))"
| "score_children [] event = ([], [])"
| "score_children ((d, w) # rest) event =
     (let (s, d') = score d event;
          (ss, rest') = score_children rest event
      in (s # ss, (d', w) # rest'))"

fun train :: "AnomalyDetector \<Rightarrow> LogEvent \<Rightarrow> AnomalyDetector"
  and train_children :: "(AnomalyDetector \<times> real) list \<Rightarrow> LogEvent \<Rightarrow> (AnomalyDetector \<times> real) list"
  where
  "train (ZScore d) event = ZScore (zscore_train d event)"
| "train (MovingAverage d) event = MovingAverage (moving_average_train d event)"
| "train (Rate d) event = Rate (rate_train d event)"
| "train (Ensemble method detectors) event = Ensemble method (train_children detectors event)"
| "train_children [] event = []"
| "train_children ((d, w) # rest) event = (train d event, w) # train_children rest event"

definition create_default :: AnomalyDetector where
  "create_default =
     Ensemble MAX_score [(ZScore (new_zscore 3), 1),
                   (MovingAverage (new_moving_average 100 2.5), 1),
                   (Rate (new_rate (seconds 60)), 0.8)]"


text \<open>The statistics of a metric that has seen the value c n times and nothing else.\<close>

definition constant_stats :: "string \<Rightarrow> real \<Rightarrow> nat \<Rightarrow> ZScoreDetector \<Rightarrow> bool" where
  "constant_stats name c n d =
     (metric_stats d = (if n = 0 then Map.empty
                        else [name \<mapsto> \<lparr>mean = c, m2 = 0, count = n\<rparr>]))"

section \<open>Event correlator and correlation engine (correlation_engine.cpp)\<close>

text \<open>
  \<^verbatim>\<open>events_\<close> is an \<^verbatim>\<open>unordered_map\<close> from the event id to the stored event; the
  association list fixes one iteration order. The three indices are only read through
  lookups that treat a missing key as an empty vector: they are total functions with the
  empty list as default.
\<close>

record EventCorrelator =
  events :: "(nat \<times> LogEvent) list"
  correlations :: "Correlation list"
  trace_id_index :: "string \<Rightarrow> nat list"
  entity_index :: "string \<Rightarrow> nat list"
  service_index :: "string \<Rightarrow> nat list"

definition new_correlator :: EventCorrelator where
  "new_correlator =
     \<lparr>events = [], correlations = [], trace_id_index = (\<lambda>_. []), entity_index = (\<lambda>_. []),
      service_index = (\<lambda>_. [])\<rparr>"

definition new_correlation :: "LogEvent \<Rightarrow> string \<Rightarrow> real \<Rightarrow> string \<Rightarrow> nat list \<Rightarrow> Correlation" where
  "new_correlation event ty conf why ids =
     \<lparr>corr_event_ids = ids @ [event_id event], correlation_type = ty, confidence = conf,
      reason = why, first_event_time = timestamp event, last_event_time = timestamp event,
      metadata = []\<rparr>"

definition correlate_by_trace_id :: "EventCorrelator \<Rightarrow> LogEvent \<Rightarrow> Correlation option" where
  "correlate_by_trace_id c event =
     (if trace_id event = [] then None
      else if trace_id_index c (trace_id event) = [] then None
      else Some ((new_correlation event ''trace_id'' 1
                    (''Events share trace ID: '' @ trace_id event)
                    (trace_id_index c (trace_id event)))
                 \<lparr>metadata := [(''trace_id'', trace_id event)]\<rparr>))"

text \<open>
  The related ids are collected in an \<^verbatim>\<open>unordered_set\<close>, whose iteration order is not
  specified; the model keeps the first occurrence of each id.
\<close>

definition correlate_by_entities :: "EventCorrelator \<Rightarrow> LogEvent \<Rightarrow> Correlation option" where
  "correlate_by_entities c event =
     (let related_events =
            remdups (filter (\<lambda>i. i \<noteq> event_id event)
                       (concat (map (\<lambda>(k, v). entity_index c v) (entities event))))
      in if related_events = [] then None
         else Some (new_correlation event ''entity'' 0.8 ''Events share common entities''
                      related_events))"

definition correlate_by_service :: "EventCorrelator \<Rightarrow> LogEvent \<Rightarrow> Correlation option" where
  "correlate_by_service c event =
     (if service_name event = [] then None
      else if service_index c (service_name event) = [] then None
      else
        let cutoff = timestamp event - 60 * 1000000000;
            recent_events =
              filter (\<lambda>i. case map_of (events c) i of
                             None \<Rightarrow> False
                           | Some e \<Rightarrow> timestamp e \<ge> cutoff)
                (service_index c (service_name event))
        in if recent_events = [] then None
           else Some ((new_correlation event ''service'' 0.6
                         (''Events from same service: '' @ service_name event) recent_events)
                      \<lparr>metadata := [(''service'', service_name event)]\<rparr>))"

text \<open>\<^verbatim>\<open>duration_cast<seconds>\<close> of the absolute difference drops the fraction of a second.\<close>

definition correlate_by_time :: "EventCorrelator \<Rightarrow> LogEvent \<Rightarrow> Correlation option" where
  "correlate_by_time c event =
     (let nearby_events =
            map fst (filter (\<lambda>(i, e). \<bar>timestamp event - timestamp e\<bar> div 1000000000 \<le> 5
                                      \<and> i \<noteq> event_id event)
                       (events c))
      in if length nearby_events < 2 then None
         else Some (new_correlation event ''temporal'' 0.4 ''Events occurred within 5 seconds''
                      nearby_events))"

definition opt_list :: "'a option \<Rightarrow> 'a list" where
  "opt_list x = (case x of None \<Rightarrow> [] | Some y \<Rightarrow> [y])"

definition correlate :: "EventCorrelator \<Rightarrow> LogEvent \<Rightarrow> Correlation list \<times> EventCorrelator" where
  "correlate c event =
     (let found_correlations =
            opt_list (correlate_by_trace_id c event) @ opt_list (correlate_by_entities c event)
            @ opt_list (correlate_by_service c event) @ opt_list (correlate_by_time c event);
          i = event_id event
      in (found_correlations,
          c\<lparr>events := AList.update i event (events c),
            trace_id_index :=
              (if trace_id event = [] then trace_id_index c
               else (trace_id_index c)(trace_id event := trace_id_index c (trace_id event) @ [i])),
            entity_index :=
              foldl (\<lambda>ix (k, v). ix(v := ix v @ [i])) (entity_index c) (entities event),
            service_index :=
              (if service_name event = [] then service_index c
               else (service_index c)
                      (service_name event := service_index c (service_name event) @ [i])),
            correlations := correlations c @ found_correlations\<rparr>))"

record CorrelationEngine =
  correlator :: EventCorrelator
  causality :: relationships

definition analyze :: "relationships \<Rightarrow> LogEvent \<Rightarrow> LogEvent list \<Rightarrow> CausalRelationship list" where
  "analyze rels event ctx =
     concat (map (\<lambda>prev_event. opt_list (rels (event_type prev_event, event_type event))) ctx)"

definition register_relationship :: "relationships \<Rightarrow> CausalRelationship \<Rightarrow> relationships" where
  "register_relationship rels rel = rels((cause_event_type rel, effect_event_type rel) \<mapsto> rel)"

text \<open>
  \<^verbatim>\<open>CorrelationEngine::process\<close> drops what \<^verbatim>\<open>correlate\<close> and \<^verbatim>\<open>analyze\<close> return. It gives
  no result where \<^verbatim>\<open>learn\<close> divides by zero.
\<close>

definition process ::
  "CorrelationEngine \<Rightarrow> LogEvent \<Rightarrow> LogEvent list \<Rightarrow> CorrelationEngine option" where
  "process eng event ctx =
     (case learn (causality eng) event ctx of
        None \<Rightarrow> None
      | Some rels \<Rightarrow>
          Some (eng\<lparr>correlator := snd (correlate (correlator eng) event), causality := rels\<rparr>))"

definition milliseconds :: "int \<Rightarrow> duration_t" where
  "milliseconds n = n * 1000000"

definition builtin_relationships :: relationships where
  "builtin_relationships =
     foldl register_relationship Map.empty
       [\<lparr>cause_event_type = ''database.slow'', effect_event_type = ''api.timeout'',
         causality_type = CAUSES, strength = 0.9, typical_delay = milliseconds 500,
         observed_count = 100\<rparr>,
        \<lparr>cause_event_type = ''api.timeout'', effect_event_type = ''user.error'',
         causality_type = CAUSES, strength = 0.8, typical_delay = milliseconds 100,
         observed_count = 100\<rparr>,
        \<lparr>cause_event_type = ''circuit_breaker.open'', effect_event_type = ''api.call'',
         causality_type = PREVENTS, strength = 1, typical_delay = milliseconds 0,
         observed_count = 100\<rparr>]"

section \<open>Logger (logger.h, logger.cpp)\<close>

subsection \<open>Event queue\<close>

record EventQueue =
  queue :: "LogEvent list"
  max_size :: nat
  shutdown_flag :: bool

definition new_queue :: "nat \<Rightarrow> EventQueue" where
  "new_queue n = \<lparr>queue = [], max_size = n, shutdown_flag = False\<rparr>"

definition push :: "EventQueue \<Rightarrow> LogEvent \<Rightarrow> bool \<times> EventQueue" where
  "push q event =
     (if length (queue q) \<ge> max_size q then (False, q)
      else (True, q\<lparr>queue := queue q @ [event]\<rparr>))"

text \<open>
  \<^verbatim>\<open>pop\<close> waits until the queue has an event or is shut down; \<open>None\<close> is its \<^verbatim>\<open>false\<close>
  after shutdown, and where the queue is empty and open the caller is blocked.
\<close>

definition pop :: "EventQueue \<Rightarrow> (LogEvent \<times> EventQueue) option" where
  "pop q = (case queue q of [] \<Rightarrow> None | e # es \<Rightarrow> Some (e, q\<lparr>queue := es\<rparr>))"

subsection \<open>Configuration and state\<close>

text \<open>The options of \<^verbatim>\<open>Config\<close> that the modelled functions read.\<close>

record Config =
  sampling_rate :: real
  sample_anomalies_always :: bool
  async_queue_size :: nat
  worker_threads :: nat
  enable_anomaly_detection :: bool
  enable_pattern_matching :: bool
  enable_correlation :: bool
  enable_auto_incidents :: bool
  incident_anomaly_threshold :: real
  incident_pattern_threshold :: nat
  incident_correlation_threshold :: nat
  log_file_path :: string
  log_to_console :: bool

definition default_config :: Config where
  "default_config =
     \<lparr>sampling_rate = 1, sample_anomalies_always = True, async_queue_size = 8192,
      worker_threads = 2, enable_anomaly_detection = True, enable_pattern_matching = True,
      enable_correlation = True, enable_auto_incidents = False,
      incident_anomaly_threshold = 0.8, incident_pattern_threshold = 1,
      incident_correlation_threshold = 3, log_file_path = [], log_to_console = True\<rparr>"

record LoggerStats =
  events_total :: "64 word"
  events_dropped :: "64 word"
  anomalies_detected :: "64 word"
  patterns_matched :: "64 word"
  correlations_found :: "64 word"
  incidents_created :: "64 word"

text \<open>
  The logger with the global queue \<^verbatim>\<open>g_event_queue\<close>. \<open>log_file\<close> holds what has been
  written to the open file, \<open>console\<close> what \<^verbatim>\<open>process_event\<close> has written to the standard
  output. The members \<^verbatim>\<open>config_\<close> and \<^verbatim>\<open>stats_\<close> are \<open>logger_config\<close> and
  \<open>logger_stats\<close>.
\<close>

record Logger =
  logger_config :: Config
  initialized :: bool
  shutdown_requested :: bool
  log_file :: "ostream option"
  console :: ostream
  event_callbacks :: "LogEvent callback list"
  anomaly_callbacks :: "LogEvent callback list"
  logger_stats :: LoggerStats
  anomaly_detector :: "AnomalyDetector option"
  pattern_engine :: "PatternMatcher list option"
  correlation_engine :: "CorrelationEngine option"
  incident_manager :: "IncidentManager option"
  event_history :: "LogEvent list"
  event_queue :: "EventQueue option"

definition max_history_size :: nat where
  "max_history_size = 1000"

definition new_logger :: Logger where
  "new_logger =
     \<lparr>logger_config = default_config, initialized = False, shutdown_requested = False,
      log_file = None, console = [], event_callbacks = [], anomaly_callbacks = [],
      logger_stats = \<lparr>events_total = 0, events_dropped = 0, anomalies_detected = 0,
                      patterns_matched = 0, correlations_found = 0, incidents_created = 0\<rparr>,
      anomaly_detector = None, pattern_engine = None, correlation_engine = None,
      incident_manager = None, event_history = [], event_queue = None\<rparr>"

text \<open>
  \<^verbatim>\<open>Logger::init\<close>. Whether the log file opens, and the integration objects that the
  configuration enables, are inputs. The callback registered on the incident manager
  prints a line and returns. The worker threads are not part of the state: a worker is
  a sequence of \<open>pop\<close> and \<open>process_event\<close>.
\<close>

definition init :: "Logger \<Rightarrow> Config \<Rightarrow> bool \<Rightarrow> IncidentIntegration list \<Rightarrow> Logger" where
  "init l cfg file_opens integs =
     (if initialized l then l
      else l\<lparr>logger_config := cfg,
             log_file := (if log_file_path cfg \<noteq> [] \<and> file_opens then Some [] else log_file l),
             event_queue := Some (new_queue (async_queue_size cfg)),
             anomaly_detector :=
               (if enable_anomaly_detection cfg then Some create_default else anomaly_detector l),
             pattern_engine :=
               (if enable_pattern_matching cfg then Some builtin_patterns else pattern_engine l),
             correlation_engine :=
               (if enable_correlation cfg
                then Some \<lparr>correlator = new_correlator, causality = builtin_relationships\<rparr>
                else correlation_engine l),
             incident_manager :=
               (if enable_auto_incidents cfg
                then Some (on_incident_created
                        (foldl register_integration
                           (new_manager (default_incident_config
                              \<lparr>anomaly_threshold := incident_anomaly_threshold cfg,
                               pattern_match_threshold := incident_pattern_threshold cfg,
                               correlated_events_threshold := incident_correlation_threshold cfg\<rparr>))
                           integs)
                        (''print incident'', \<lambda>_. Returns))
                else incident_manager l),
             shutdown_requested := False,
             initialized := True\<rparr>)"


subsection \<open>Emission\<close>

text \<open>\<open>u\<close> is the number drawn by \<^verbatim>\<open>dis(gen)\<close>, in the interval from 0 to 1.\<close>

definition should_sample :: "Config \<Rightarrow> real \<Rightarrow> LogEvent \<Rightarrow> bool" where
  "should_sample cfg u event =
     (if sample_anomalies_always cfg
         \<and> (is_anomalous event \<or> severity_rank (severity event) \<ge> severity_rank ERROR)
      then True
      else if sampling_rate cfg \<ge> 1 then True
      else u < sampling_rate cfg)"

definition emit :: "Logger \<Rightarrow> real \<Rightarrow> LogEvent \<Rightarrow> Logger" where
  "emit l u event =
     (if \<not> initialized l then l
      else if \<not> should_sample (logger_config l) u event then l
      else
        let st = logger_stats l;
            l1 = l\<lparr>logger_stats := st\<lparr>events_total := events_total st + 1\<rparr>\<rparr>
        in case event_queue l1 of
             None \<Rightarrow> l1
           | Some q \<Rightarrow>
               (case push q event of
                  (True, q') \<Rightarrow> l1\<lparr>event_queue := Some q'\<rparr>
                | (False, _) \<Rightarrow>
                    l1\<lparr>logger_stats :=
                         (logger_stats l1)\<lparr>events_dropped := events_dropped (logger_stats l1) + 1\<rparr>\<rparr>))"

text \<open>A burst of emissions from one producer, each with its random draw.\<close>

definition emit_all :: "Logger \<Rightarrow> (real \<times> LogEvent) list \<Rightarrow> Logger" where
  "emit_all l xs = foldl (\<lambda>l (u, e). emit l u e) l xs"

subsection \<open>The pipeline of a worker\<close>

text \<open>
  \<^verbatim>\<open>Logger::process_event\<close>, stage by stage. \<open>processed\<close> is the local copy
  \<^verbatim>\<open>processed_event\<close>: the anomaly stage assigns its score, and every later stage takes it
  by constant reference. No call of a callback stands in a \<^verbatim>\<open>try\<close> block, so an exception
  leaves \<^verbatim>\<open>process_event\<close> with the state reached so far.
\<close>

definition anomaly_stage :: "Logger \<Rightarrow> LogEvent \<Rightarrow> Logger \<times> LogEvent \<times> string list \<times> call_result" where
  "anomaly_stage l event =
     (case anomaly_detector l of
        None \<Rightarrow> (l, event, [], Returns)
      | Some det \<Rightarrow>
          if metrics event = [] then (l, event, [], Returns)
          else
            let (s, det1) = score det event;
                processed = event\<lparr>anomaly_score := s\<rparr>;
                l1 = l\<lparr>anomaly_detector := Some (train det1 processed)\<rparr>
            in if s \<ge> 0.7
               then let st = logger_stats l1;
                        l2 = l1\<lparr>logger_stats := st\<lparr>anomalies_detected := anomalies_detected st + 1\<rparr>\<rparr>;
                        (called, r) = invoke_all (anomaly_callbacks l2) processed
                    in (l2, processed, called, r)
               else (l1, processed, [], Returns))"

definition pattern_stage :: "regex_search \<Rightarrow> Logger \<Rightarrow> LogEvent \<Rightarrow> Logger \<times> string list" where
  "pattern_stage rx l processed =
     (case pattern_engine l of
        None \<Rightarrow> (l, [])
      | Some patterns \<Rightarrow>
          let (matches, patterns1) = match_patterns rx patterns processed (event_history l);
              st = logger_stats l;
              l1 = (if matches = [] then l
                    else l\<lparr>logger_stats :=
                             st\<lparr>patterns_matched := patterns_matched st + of_nat (length matches)\<rparr>\<rparr>)
          in (l1\<lparr>pattern_engine := Some (train_all patterns1 processed)\<rparr>,
              map (\<lambda>m. pattern_name (pm_pattern m)) matches))"

definition correlation_stage :: "Logger \<Rightarrow> LogEvent \<Rightarrow> (Logger \<times> Correlation list) option" where
  "correlation_stage l processed =
     (case correlation_engine l of
        None \<Rightarrow> Some (l, [])
      | Some eng \<Rightarrow>
          (case process eng processed (event_history l) of
             None \<Rightarrow> None
           | Some eng1 \<Rightarrow>
               let (found, c2) = correlate (correlator eng1) processed;
                   l1 = l\<lparr>correlation_engine := Some (eng1\<lparr>correlator := c2\<rparr>)\<rparr>;
                   st = logger_stats l1
               in Some (if found = [] then l1
                        else l1\<lparr>logger_stats :=
                                  st\<lparr>correlations_found :=
                                       correlations_found st + of_nat (length found)\<rparr>\<rparr>,
                        found)))"

definition incident_stage ::
  "Logger \<Rightarrow> timestamp_t \<Rightarrow> LogEvent \<Rightarrow> Correlation list \<Rightarrow> string list
   \<Rightarrow> Logger \<times> string list \<times> call_result" where
  "incident_stage l now processed found matched_patterns =
     (case incident_manager l of
        None \<Rightarrow> (l, [], Returns)
      | Some m \<Rightarrow>
          let r = evaluate_event m now processed found matched_patterns;
              l1 = l\<lparr>incident_manager := Some (mgr r)\<rparr>;
              st = logger_stats l1
          in (case ret r of
                Propagated \<Rightarrow> (l1, notified r, Throws)
              | Returned None \<Rightarrow> (l1, notified r, Returns)
              | Returned (Some i) \<Rightarrow>
                  (l1\<lparr>logger_stats := st\<lparr>incidents_created := incidents_created st + 1\<rparr>\<rparr>,
                   notified r, Returns)))"

definition history_stage :: "Logger \<Rightarrow> LogEvent \<Rightarrow> Logger" where
  "history_stage l processed =
     (let h = event_history l @ [processed]
      in l\<lparr>event_history := (if length h > max_history_size then tl h else h)\<rparr>)"

definition endl :: tok where
  "endl = Str [CHR 0x0A]"

definition file_line :: "string list \<Rightarrow> LogEvent \<Rightarrow> ostream" where
  "file_line matched_patterns processed =
     (case matched_patterns of [] \<Rightarrow> [] | p # _ \<Rightarrow> [Str ''[PATTERN:'', Str p, Str ''] ''])
     @ to_string processed @ [endl]"

definition console_output :: "string list \<Rightarrow> LogEvent \<Rightarrow> ostream" where
  "console_output matched_patterns processed =
     (case matched_patterns of
        [] \<Rightarrow> []
      | p # _ \<Rightarrow> [Str ([CHR 0xF0, CHR 0x9F, CHR 0x94, CHR 0x8D] @ '' PATTERN: ''), Str p, Str '' - ''])
     @ (if is_anomalous processed
        then Str [CHR 0xF0, CHR 0x9F, CHR 0x94, CHR 0xB4, CHR 0x20] # to_string processed @ [endl]
        else if severity_rank (severity processed) \<ge> severity_rank WARNING
        then Str [CHR 0xF0, CHR 0x9F, CHR 0x9F, CHR 0xA1, CHR 0x20] # to_string processed @ [endl]
        else [])"

definition sink_stage :: "Logger \<Rightarrow> string list \<Rightarrow> LogEvent \<Rightarrow> Logger" where
  "sink_stage l matched_patterns processed =
     l\<lparr>log_file := map_option (\<lambda>f. f @ file_line matched_patterns processed) (log_file l),
       console := (if log_to_console (logger_config l)
                   then console l @ console_output matched_patterns processed
                   else console l)\<rparr>"

text \<open>
  What a call of \<^verbatim>\<open>process_event\<close> leaves behind: the logger, the callbacks and
  integrations called (in order), and whether the call returned (\<open>finished\<close>) or an
  exception left it. A worker thread has no handler either: an exception that leaves
  \<^verbatim>\<open>process_event\<close> leaves the thread function. A division by zero in the correlation
  stage ends the call as well: it does not return.
\<close>

record processing =
  logger_after :: Logger
  called :: "string list"
  finished :: bool

definition process_event :: "regex_search \<Rightarrow> Logger \<Rightarrow> timestamp_t \<Rightarrow> LogEvent \<Rightarrow> processing" where
  "process_event rx l now event =
     (let (l1, processed, called1, r1) = anomaly_stage l event in
      if r1 = Throws then \<lparr>logger_after = l1, called = called1, finished = False\<rparr>
      else
        let (l2, matched_patterns) = pattern_stage rx l1 processed
        in case correlation_stage l2 processed of
             None \<Rightarrow> \<lparr>logger_after = l2, called = called1, finished = False\<rparr>
           | Some (l3, found) \<Rightarrow>
               let (l4, called2, r2) = incident_stage l3 now processed found matched_patterns
               in if r2 = Throws
                  then \<lparr>logger_after = l4, called = called1 @ called2, finished = False\<rparr>
                  else
                    let l5 = history_stage l4 processed;
                        (called3, r3) = invoke_all (event_callbacks l5) processed
                    in if r3 = Throws
                       then \<lparr>logger_after = l5, called = called1 @ called2 @ called3,
                             finished = False\<rparr>
                       else \<lparr>logger_after = sink_stage l5 matched_patterns processed,
                             called = called1 @ called2 @ called3, finished = True\<rparr>)"


text \<open>The event as it leaves the anomaly stage.\<close>

definition processed_event :: "Logger \<Rightarrow> LogEvent \<Rightarrow> LogEvent" where
  "processed_event l event = fst (snd (anomaly_stage l event))"

definition on_event :: "Logger \<Rightarrow> LogEvent callback \<Rightarrow> Logger" where
  "on_event l cb = l\<lparr>event_callbacks := event_callbacks l @ [cb]\<rparr>"

definition on_anomaly :: "Logger \<Rightarrow> LogEvent callback \<Rightarrow> Logger" where
  "on_anomaly l cb = l\<lparr>anomaly_callbacks := anomaly_callbacks l @ [cb]\<rparr>"





text \<open>
  The invariant carried along a run: every stored incident is consistent and was created
  no later than the last clock reading \<open>t\<close>.
\<close>

definition manager_inv :: "timestamp_t \<Rightarrow> IncidentManager \<Rightarrow> bool" where
  "manager_inv t m = (\<forall>(k, i) \<in> set (incidents m). resolved_at_consistent i \<and> created_at i \<le> t)"

section \<open>Concrete inputs\<close>

text \<open>An event whose score 0.9 is above the default incident threshold 0.75.\<close>

definition ev_spike :: LogEvent where
  "ev_spike = (new_event ''payment.latency'' 0 0)\<lparr>anomaly_score := 0.9\<rparr>"

text \<open>The default manager after it has evaluated \<open>ev_spike\<close> once, at time 0.\<close>

definition m_first :: IncidentManager where
  "m_first = mgr (evaluate_event (new_manager default_incident_config) 0 ev_spike [] [])"

text \<open>A run that resolves an incident through \<^verbatim>\<open>resolve_incident\<close>.\<close>

definition ops_resolve :: "manager_op list" where
  "ops_resolve =
     [CreateIncident 0 ''disk full'' [] LOW [],
      UpdateStatus ''INC-000001'' INVESTIGATING,
      ResolveIncident 5 ''INC-000001'' ''disk replaced'',
      AutoResolveStale 7 8]"

text \<open>
  A new incident that \<^verbatim>\<open>update_status\<close> moves to \<open>RESOLVED\<close>, and the same incident
  resolved by \<^verbatim>\<open>resolve_incident\<close> at time 5.
\<close>

definition m_forced :: IncidentManager where
  "m_forced = update_status (mgr (create_incident (new_manager default_incident_config) 0
                 ''disk full'' [] LOW [])) ''INC-000001'' RESOLVED"

definition m_resolved :: IncidentManager where
  "m_resolved = mgr (resolve_incident (mgr (create_incident (new_manager default_incident_config) 0
                  ''disk full'' [] LOW [])) 5 ''INC-000001'' ''disk replaced'')"

text \<open>A slow database event and an API timeout 500 nanoseconds later.\<close>

definition ev_cause :: LogEvent where
  "ev_cause = new_event ''database.slow'' 0 0"
definition ev_effect :: LogEvent where
  "ev_effect = new_event ''api.timeout'' 500 1"

text \<open>
  A slow database event of another producer, stamped 1000 nanoseconds after the timeout;
  a registered relationship whose count is \<open>2^64 - 1\<close>; and one seen 400 million times
  with a delay of 60 seconds.
\<close>

definition ev_late :: LogEvent where
  "ev_late = new_event ''database.slow'' 1500 2"



text \<open>An event that carries the one metric \<open>latency_ms\<close>.\<close>

definition ev_metric :: "real \<Rightarrow> LogEvent" where
  "ev_metric v = (new_event ''metric.observed'' 0 0)\<lparr>metrics := [(''latency_ms'', v)]\<rparr>"

text \<open>A burst of \<open>n\<close> events, and a logger initialised with a queue of four and no worker.\<close>

definition burst :: "nat \<Rightarrow> (real \<times> LogEvent) list" where
  "burst n = map (\<lambda>i. (0, new_event ''tick'' (int i) i)) [0..<n]"

definition l_small :: Logger where
  "l_small = init new_logger (default_config\<lparr>async_queue_size := 4, worker_threads := 0\<rparr>) False []"

text \<open>A regular-expression search that finds nothing, and the logger after \<^verbatim>\<open>init\<close>.\<close>

definition rx_none :: regex_search where
  "rx_none = (\<lambda>pat subject. False)"

definition l_default :: Logger where
  "l_default = init new_logger default_config False []"





text \<open>The cascade of the built-in sequential pattern, one second between its events.\<close>

definition cascade_history :: "LogEvent list" where
  "cascade_history = [new_event ''database.slow'' 0 0, new_event ''api.timeout'' (seconds 1) 1]"

definition cascade_last :: LogEvent where
  "cascade_last = new_event ''user.error'' (seconds 2) 2"



text \<open>Two listeners, the first of which throws, on the logger and on a manager.\<close>

definition l_listeners :: Logger where
  "l_listeners =
     on_event (on_event l_default (''first'', \<lambda>e. Throws)) (''second'', \<lambda>e. Returns)"

definition m_listeners :: IncidentManager where
  "m_listeners =
     on_incident_created
       (on_incident_created (new_manager default_incident_config) (''first'', \<lambda>i. Throws))
       (''second'', \<lambda>i. Returns)"

text \<open>
  Two events with the same id and type: one has a single entity whose value contains
  double quotes, the other has two entities.
\<close>

definition ev_quoted :: LogEvent where
  "ev_quoted =
     (new_event ''user.login'' 0 0)
       \<lparr>entities := [(''user'', ''a'' @ dq @ '','' @ dq @ ''x'' @ dq @ '':'' @ dq @ ''b'')]\<rparr>"

definition ev_two_entities :: LogEvent where
  "ev_two_entities = (new_event ''user.login'' 0 0)\<lparr>entities := [(''user'', ''a''), (''x'', ''b'')]\<rparr>"

section \<open>Incident creation\<close>

lemma generate_incident_id_1: "generate_incident_id 1 = ''INC-000001''"
  by (simp add: generate_incident_id_def setw_fill0_def dec.simps digit_char_def eval_nat_numeral)

lemma find_duplicate_next [simp]:
  "find_duplicate (m\<lparr>next_incident_id := n\<rparr>) i = find_duplicate m i"
  by (simp add: find_duplicate_def)

lemma store_and_notify_mgr:
  "mgr (store_and_notify m i) =
     m\<lparr>incidents := AList.update (incident_id i) i (incidents m),
       stats := (stats m)\<lparr>total_created := total_created (stats m) + 1,
                          currently_open := currently_open (stats m) + 1\<rparr>\<rparr>"
  by (simp add: store_and_notify_def Let_def split: prod.splits)

lemma store_and_notify_Returned:
  "ret (store_and_notify m i) = Returned x \<Longrightarrow> x = i"
  by (simp add: store_and_notify_def Let_def split: prod.splits if_splits)

text \<open>
  C1, as amended. \<^verbatim>\<open>evaluate_event\<close> creates an incident (stores it in \<^verbatim>\<open>incidents_\<close>
  under its id and counts it in \<^verbatim>\<open>total_created\<close>) if and only if one of the three
  thresholds is met (\<open>should_create\<close>) and the candidate is not suppressed as a duplicate,
  that is, deduplication is disabled or \<^verbatim>\<open>find_duplicate\<close> finds nothing. A created
  incident is returned unless an integration or a callback lets an exception escape.
  In every other case, in particular when no threshold is met, \<^verbatim>\<open>evaluate_event\<close>
  returns no incident and leaves \<^verbatim>\<open>incidents_\<close> and \<^verbatim>\<open>total_created\<close> as they were.
\<close>

theorem evaluate_event_creates_iff:
  "let r = evaluate_event m now event cs ps;
       candidate = build_incident m now event cs ps;
       creates = (should_create (config m) event cs ps
                  \<and> \<not> (enable_deduplication (config m) \<and> find_duplicate m candidate \<noteq> None))
   in if creates
      then map_of (incidents (mgr r)) (incident_id candidate) = Some candidate
           \<and> total_created (stats (mgr r)) = total_created (stats m) + 1
           \<and> (ret r = Returned (Some candidate) \<or> ret r = Propagated)
      else ret r = Returned None
           \<and> incidents (mgr r) = incidents m
           \<and> total_created (stats (mgr r)) = total_created (stats m)"
  unfolding Let_def evaluate_event_def
  by (auto simp: store_and_notify_mgr update_Some_unfold split: outcome.splits
           dest: store_and_notify_Returned)

text \<open>
  C1 as stated fails: the event \<open>ev_spike\<close> meets the anomaly threshold, yet its second
  evaluation (one nanosecond after the first, default configuration) returns no incident
  and stores none, because the incident of the first evaluation has the same title and
  severity.
\<close>

theorem evaluate_event_threshold_not_sufficient:
  "should_create (config m_first) ev_spike [] []
   \<and> ret (evaluate_event m_first 1 ev_spike [] []) = Returned None
   \<and> incidents (mgr (evaluate_event m_first 1 ev_spike [] [])) = incidents m_first"
  by (simp add: m_first_def evaluate_event_def should_create_def ev_spike_def new_event_def
      new_manager_def default_incident_config_def build_incident_def Let_def
      generate_incident_id_1 store_and_notify_def find_duplicate_def calculate_severity_def
      incident_title_def overlap_def)

section \<open>Deduplication\<close>

lemma find_duplicate_in_iff:
  "find_duplicate_in w inc xs \<noteq> None \<longleftrightarrow>
     (\<exists>(k, existing) \<in> set xs.
        created_at inc - w \<le> created_at existing
        \<and> status existing \<noteq> RESOLVED \<and> status existing \<noteq> CLOSED
        \<and> (title existing = title inc \<and> inc_severity existing = inc_severity inc
           \<or> length (event_ids inc) < 2 * overlap (event_ids existing) (event_ids inc)))"
proof (induction xs)
  case Nil
  then show ?case by simp
next
  case (Cons p xs)
  obtain k e where p: "p = (k, e)" by (cases p)
  have half: "(length (event_ids inc) div 2 < overlap (event_ids e) (event_ids inc))
      = (length (event_ids inc) < 2 * overlap (event_ids e) (event_ids inc))"
    by linarith
  show ?case
    using Cons.IH unfolding p by (auto simp: half)
qed

text \<open>
  C5. With deduplication enabled, a candidate incident (one that meets a threshold) is
  suppressed, that is \<^verbatim>\<open>evaluate_event\<close> returns no incident and \<^verbatim>\<open>deduplicated\<close> grows
  by one, if and only if some existing incident was created no earlier than the
  deduplication window before the candidate, is neither \<open>RESOLVED\<close> nor \<open>CLOSED\<close>, and
  either has the candidate's title and severity or contains more than half of the
  candidate's \<^verbatim>\<open>event_ids\<close> (counted as the entries of the candidate's sequence).
\<close>

theorem deduplication_suppresses_iff:
  assumes "enable_deduplication (config m)"
    and "should_create (config m) event cs ps"
  shows "(ret (evaluate_event m now event cs ps) = Returned None
          \<and> deduplicated (stats (mgr (evaluate_event m now event cs ps)))
              = deduplicated (stats m) + 1)
         \<longleftrightarrow>
         (\<exists>(k, existing) \<in> set (incidents m).
            created_at (build_incident m now event cs ps) - deduplication_window (config m)
               \<le> created_at existing
            \<and> status existing \<noteq> RESOLVED \<and> status existing \<noteq> CLOSED
            \<and> (title existing = title (build_incident m now event cs ps)
                 \<and> inc_severity existing = inc_severity (build_incident m now event cs ps)
               \<or> length (event_ids (build_incident m now event cs ps))
                    < 2 * overlap (event_ids existing)
                          (event_ids (build_incident m now event cs ps))))"
proof -
  let ?c = "build_incident m now event cs ps"
  have dup: "(find_duplicate m ?c \<noteq> None) = (\<exists>(k, existing) \<in> set (incidents m).
        created_at ?c - deduplication_window (config m) \<le> created_at existing
        \<and> status existing \<noteq> RESOLVED \<and> status existing \<noteq> CLOSED
        \<and> (title existing = title ?c \<and> inc_severity existing = inc_severity ?c
           \<or> length (event_ids ?c) < 2 * overlap (event_ids existing) (event_ids ?c)))"
    unfolding find_duplicate_def by (rule find_duplicate_in_iff)
  have "(ret (evaluate_event m now event cs ps) = Returned None
          \<and> deduplicated (stats (mgr (evaluate_event m now event cs ps)))
              = deduplicated (stats m) + 1) = (find_duplicate m ?c \<noteq> None)"
    using assms unfolding evaluate_event_def Let_def
    by (auto simp: store_and_notify_mgr split: outcome.splits)
  then show ?thesis unfolding dup .
qed

text \<open>
  C5 at a concrete input: the second evaluation of \<open>ev_spike\<close> by the default manager.
\<close>

theorem deduplication_suppresses_iff_witness:
  "enable_deduplication (config m_first)
   \<and> should_create (config m_first) ev_spike [] []
   \<and> ret (evaluate_event m_first 1 ev_spike [] []) = Returned None
   \<and> deduplicated (stats (mgr (evaluate_event m_first 1 ev_spike [] []))) = 1"
proof -
  have inc: "incidents m_first = [(''INC-000001'',
      build_incident (new_manager default_incident_config) 0 ev_spike [] [])]"
    by (simp add: m_first_def evaluate_event_def should_create_def ev_spike_def new_event_def
      new_manager_def default_incident_config_def build_incident_def Let_def
      generate_incident_id_1 store_and_notify_def find_duplicate_def calculate_severity_def)
  have cfg: "config m_first = default_incident_config" "deduplicated (stats m_first) = 0"
    by (simp_all add: m_first_def evaluate_event_def should_create_def ev_spike_def new_event_def
      new_manager_def default_incident_config_def Let_def store_and_notify_mgr find_duplicate_def)
  have h1: "enable_deduplication (config m_first)"
    by (simp add: cfg default_incident_config_def)
  have h2: "should_create (config m_first) ev_spike [] []"
    by (simp add: cfg default_incident_config_def should_create_def ev_spike_def new_event_def)
  have rhs: "\<exists>(k, existing) \<in> set (incidents m_first).
            created_at (build_incident m_first 1 ev_spike [] []) - deduplication_window (config m_first)
               \<le> created_at existing
            \<and> status existing \<noteq> RESOLVED \<and> status existing \<noteq> CLOSED
            \<and> (title existing = title (build_incident m_first 1 ev_spike [] [])
                 \<and> inc_severity existing = inc_severity (build_incident m_first 1 ev_spike [] [])
               \<or> length (event_ids (build_incident m_first 1 ev_spike [] []))
                    < 2 * overlap (event_ids existing)
                          (event_ids (build_incident m_first 1 ev_spike [] [])))"
    by (simp add: inc cfg build_incident_def default_incident_config_def Let_def new_manager_def)
  show ?thesis
    using deduplication_suppresses_iff [OF h1 h2, of 1] rhs h1 h2 by (simp add: cfg)
qed

section \<open>The resolution timestamp\<close>

lemma set_update_subset: "set (AList.update k v xs) \<subseteq> insert (k, v) (set xs)"
  by (induction xs) auto

lemma inv_update:
  "manager_inv t m \<Longrightarrow> resolved_at_consistent i \<Longrightarrow> created_at i \<le> t \<Longrightarrow>
   manager_inv t (m\<lparr>incidents := AList.update k i (incidents m)\<rparr>)"
  unfolding manager_inv_def using set_update_subset [of k i "incidents m"] by auto

lemma inv_mono: "manager_inv t m \<Longrightarrow> t \<le> t' \<Longrightarrow> manager_inv t' m"
  unfolding manager_inv_def by fastforce

lemma inv_lookup: "manager_inv t m \<Longrightarrow> map_of (incidents m) k = Some i \<Longrightarrow> resolved_at_consistent i \<and> created_at i \<le> t"
  unfolding manager_inv_def by (auto dest: map_of_SomeD)

lemma inv_incidents_eq: "manager_inv t m \<Longrightarrow> incidents m' = incidents m \<Longrightarrow> manager_inv t m'"
  unfolding manager_inv_def by simp

lemma inv_store:
  assumes "manager_inv t m" "resolved_at_consistent i" "created_at i \<le> t"
  shows "manager_inv t (mgr (store_and_notify m i))"
proof -
  have "manager_inv t (m\<lparr>incidents := AList.update (incident_id i) i (incidents m)\<rparr>)"
    using assms by (rule inv_update)
  then show ?thesis
    by (rule inv_incidents_eq) (simp add: store_and_notify_mgr)
qed

lemma inv_evaluate:
  assumes "manager_inv t m" "t \<le> now"
  shows "manager_inv now (mgr (evaluate_event m now e cs ps))"
proof -
  have m: "manager_inv now m" using assms by (rule inv_mono)
  let ?c = "build_incident m now e cs ps"
  have c: "resolved_at_consistent ?c" "created_at ?c \<le> now"
    by (simp_all add: build_incident_def resolved_at_consistent_def Let_def)
  have "manager_inv now (mgr (store_and_notify (m\<lparr>next_incident_id := next_incident_id m + 1\<rparr>) ?c))"
    by (rule inv_store [OF _ c]) (rule inv_incidents_eq [OF m], simp)
  moreover have "manager_inv now (m\<lparr>next_incident_id := next_incident_id m + 1,
      stats := s\<rparr>)" for s
    by (rule inv_incidents_eq [OF m]) simp
  ultimately show ?thesis
    using m unfolding evaluate_event_def Let_def by simp
qed

lemma inv_create:
  assumes "manager_inv t m" "t \<le> now"
  shows "manager_inv now (mgr (create_incident m now ttl descr sev ids))"
proof -
  have m: "manager_inv now m" using assms by (rule inv_mono)
  show ?thesis
    unfolding create_incident_def Let_def
    by (rule inv_store) (rule inv_incidents_eq [OF m], simp_all add: resolved_at_consistent_def)
qed

lemma inv_update_status:
  assumes "manager_inv t m" "op_admissible t m (UpdateStatus k s)"
  shows "manager_inv t (update_status m k s)"
proof (cases "map_of (incidents m) k")
  case None
  then show ?thesis using assms by (simp add: update_status_def)
next
  case (Some i)
  have i: "resolved_at_consistent i" "created_at i \<le> t"
    using inv_lookup [OF assms(1) Some] by simp_all
  have "status i \<noteq> RESOLVED" "s \<noteq> RESOLVED" using assms(2) Some by simp_all
  then have "resolved_at_consistent (i\<lparr>status := s\<rparr>)"
    using i(1) by (simp add: resolved_at_consistent_def)
  then have "manager_inv t (m\<lparr>incidents := AList.update k (i\<lparr>status := s\<rparr>) (incidents m)\<rparr>)"
    using i(2) by (intro inv_update assms(1)) simp_all
  then show ?thesis using Some by (simp add: update_status_def)
qed

lemma inv_resolve:
  assumes "manager_inv t m" "t \<le> now"
  shows "manager_inv now (mgr (resolve_incident m now k resolution))"
proof (cases "map_of (incidents m) k")
  case None
  then show ?thesis using inv_mono [OF assms] by (simp add: resolve_incident_def)
next
  case (Some i)
  have m: "manager_inv now m" using assms by (rule inv_mono)
  have i: "created_at i \<le> now"
    using inv_lookup [OF m Some] by simp
  let ?i = "i\<lparr>status := RESOLVED, resolved_at := Some now, root_cause := Some resolution\<rparr>"
  have "manager_inv now (m\<lparr>incidents := AList.update k ?i (incidents m)\<rparr>)"
    using i by (intro inv_update m) (simp_all add: resolved_at_consistent_def)
  then have "manager_inv now (mgr (resolve_incident m now k resolution))"
    by (rule inv_incidents_eq)
       (simp add: resolve_incident_def Some Let_def split: prod.splits)
  then show ?thesis .
qed

lemma auto_resolve_loop_inv:
  assumes "\<forall>(k, i) \<in> set xs. resolved_at_consistent i \<and> created_at i \<le> t" "t \<le> now'"
  shows "\<forall>(k, i) \<in> set (fst (auto_resolve_loop cutoff now' xs st)).
           resolved_at_consistent i \<and> created_at i \<le> now'"
  using assms
proof (induction xs arbitrary: st)
  case Nil
  then show ?case by simp
next
  case (Cons p xs)
  obtain k i where p: "p = (k, i)" by (cases p)
  show ?case
    using Cons.IH [of "st\<lparr>currently_open := currently_open st - 1, resolved := resolved st + 1\<rparr>"]
      Cons.IH [of st] Cons.prems
    unfolding p
    by (auto simp: Let_def resolved_at_consistent_def split: prod.splits)
qed

lemma inv_auto_resolve:
  assumes "manager_inv t m" "t \<le> now" "now \<le> now'"
  shows "manager_inv now' (auto_resolve_stale_incidents m now now')"
proof (cases "enable_auto_resolution (config m)")
  case False
  then show ?thesis
    using inv_mono [OF assms(1), of now'] assms by (simp add: auto_resolve_stale_incidents_def)
next
  case True
  have "\<forall>(k, i) \<in> set (fst (auto_resolve_loop (now - resolution_timeout (config m)) now'
           (incidents m) (stats m))). resolved_at_consistent i \<and> created_at i \<le> now'"
    by (rule auto_resolve_loop_inv [where t = t]) (use assms in \<open>auto simp: manager_inv_def\<close>)
  then show ?thesis
    using True by (simp add: auto_resolve_stale_incidents_def manager_inv_def split: prod.splits)
qed

lemma inv_apply_op:
  "manager_inv t m \<Longrightarrow> op_admissible t m x \<Longrightarrow> manager_inv (op_clock t x) (apply_op m x)"
proof (cases x)
  case (UpdateStatus k s)
  assume "manager_inv t m" "op_admissible t m x"
  then show ?thesis unfolding UpdateStatus using inv_update_status by simp
qed (auto intro: inv_evaluate inv_create inv_resolve inv_auto_resolve inv_incidents_eq
      simp: register_integration_def on_incident_created_def on_incident_resolved_def)

lemma inv_run:
  "manager_inv t m \<Longrightarrow> admissible t m ops \<Longrightarrow> \<exists>t'. manager_inv t' (run_ops m ops)"
  unfolding run_ops_def
proof (induction ops arbitrary: t m)
  case Nil
  then show ?case by auto
next
  case (Cons x xs)
  then show ?case using inv_apply_op [of t m x] by auto
qed

text \<open>
  The operations other than \<^verbatim>\<open>update_status\<close> set the status and \<^verbatim>\<open>resolved_at\<close> together.
  Along every run from a new manager in which the clock never goes back and
  \<^verbatim>\<open>update_status\<close> moves no incident into or out of \<open>RESOLVED\<close>, every stored incident has
  \<^verbatim>\<open>resolved_at\<close> set if and only if its status is \<open>RESOLVED\<close>, and a set \<^verbatim>\<open>resolved_at\<close> is
  not before \<^verbatim>\<open>created_at\<close>.
\<close>

lemma resolved_at_kept:
  assumes "admissible t (new_manager cfg) ops"
  shows "list_all resolved_at_consistent (map snd (incidents (run_ops (new_manager cfg) ops)))"
proof -
  have "manager_inv t (new_manager cfg)" by (simp add: manager_inv_def new_manager_def)
  then obtain t' where "manager_inv t' (run_ops (new_manager cfg) ops)"
    using inv_run assms by blast
  then show ?thesis
    by (auto simp: manager_inv_def list_all_iff)
qed

text \<open>
  Such a run: an incident is created at time 0, moved to \<open>INVESTIGATING\<close>, resolved at
  time 5, and the stale incidents are resolved at times 7 and 8.
\<close>

lemma resolved_at_kept_run:
  "admissible 0 (new_manager default_incident_config) ops_resolve
   \<and> list_all resolved_at_consistent
        (map snd (incidents (run_ops (new_manager default_incident_config) ops_resolve)))"
proof -
  have a: "admissible 0 (new_manager default_incident_config) ops_resolve"
    by (simp add: ops_resolve_def create_incident_def update_status_def store_and_notify_mgr
        new_manager_def generate_incident_id_1 Let_def)
  show ?thesis
    using resolved_at_kept [OF a] a by simp
qed

text \<open>
  C9 does not hold of the source. \<^verbatim>\<open>update_status\<close> assigns the status and nothing else:
  the incident created at time 0 and moved to \<open>RESOLVED\<close> by it is stored with the status
  \<open>RESOLVED\<close> and no \<^verbatim>\<open>resolved_at\<close>, and the counter of resolved incidents stays 0.
  \<^verbatim>\<open>resolve_incident\<close>, called at time 5 on the same incident, stores the status
  \<open>RESOLVED\<close> with \<^verbatim>\<open>resolved_at\<close> 5 and counts it, as \<^verbatim>\<open>auto_resolve_stale_incidents\<close>
  does.
\<close>

theorem update_status_resolved_without_timestamp:
  "map (\<lambda>(k, i). (k, status i, resolved_at i)) (incidents m_forced)
     = [(''INC-000001'', RESOLVED, None)]
   \<and> resolved (stats m_forced) = 0
   \<and> \<not> list_all resolved_at_consistent (map snd (incidents m_forced))
   \<and> map (\<lambda>(k, i). (k, status i, resolved_at i)) (incidents m_resolved)
     = [(''INC-000001'', RESOLVED, Some 5)]
   \<and> resolved (stats m_resolved) = 1"
  by (simp add: m_forced_def m_resolved_def create_incident_def update_status_def
      resolve_incident_def store_and_notify_mgr new_manager_def generate_incident_id_1
      resolved_at_consistent_def Let_def)

section \<open>Pattern matches\<close>









text \<open>
  The built-in patterns on the cascade: the complete cascade is reported with score 1, and
  the cascade without its first event, a partial match, is not reported.
\<close>

lemma cascading_failure_detected:
  "map (\<lambda>m. (pattern_name (pm_pattern m), pm_score m))
     (fst (match_patterns rx_none builtin_patterns cascade_last cascade_history))
   = [(''cascading_failure'', 1)]"
  by (simp add: match_patterns_def builtin_patterns_def cascading_failure_def
      auth_failure_pattern_def retry_storm_def exception_pattern_def cascade_last_def
      cascade_history_def new_event_def new_step_def seconds_def sequential_match_def
      matches_step_def frequency_match_def regex_match_def rx_none_def sort_by_score_def
      Let_def)

lemma partial_cascade_not_reported:
  "fst (match_patterns rx_none builtin_patterns cascade_last [new_event ''api.timeout'' (seconds 1) 1])
   = []"
  by (simp add: match_patterns_def builtin_patterns_def cascading_failure_def
      auth_failure_pattern_def retry_storm_def exception_pattern_def cascade_last_def
      new_event_def new_step_def seconds_def sequential_match_def
      matches_step_def frequency_match_def regex_match_def rx_none_def sort_by_score_def
      Let_def)

section \<open>Learning causal relationships\<close>















lemma ev_types [simp]:
  "event_type ev_cause = ''database.slow''" "event_type ev_effect = ''api.timeout''"
  "timestamp ev_cause = 0" "timestamp ev_effect = 500"
  "event_type ev_late = ''database.slow''" "timestamp ev_late = 1500"
  by (simp_all add: ev_cause_def ev_effect_def ev_late_def new_event_def)




section \<open>The Z-score detector on a constant metric\<close>

lemma welford_first: "welford \<lparr>mean = 0, m2 = 0, count = 0\<rparr> c = \<lparr>mean = c, m2 = 0, count = 1\<rparr>"
  by (simp add: welford_def)

lemma welford_constant:
  "welford \<lparr>mean = c, m2 = 0, count = n\<rparr> c = \<lparr>mean = c, m2 = 0, count = Suc n\<rparr>"
  by (simp add: welford_def)

lemma zscore_train_constant:
  assumes "constant_stats name c n d" "metrics e = [(name, c)]"
  shows "constant_stats name c (Suc n) (zscore_train d e)"
  using assms
  by (cases "n = 0")
     (auto simp: constant_stats_def zscore_train_def welford_first welford_constant)

lemma zscore_train_threshold [simp]: "z_threshold (zscore_train d e) = z_threshold d"
  by (simp add: zscore_train_def)

lemma train_constant:
  assumes "list_all (\<lambda>e. metrics e = [(name, c)]) evs" "constant_stats name c n d"
  shows "constant_stats name c (n + length evs) (foldl zscore_train d evs)"
  using assms
proof (induction evs arbitrary: n d)
  case Nil
  then show ?case by simp
next
  case (Cons e evs)
  have "constant_stats name c (Suc n) (zscore_train d e)"
    using Cons.prems by (intro zscore_train_constant) simp_all
  moreover have "list_all (\<lambda>e. metrics e = [(name, c)]) evs" using Cons.prems by simp
  ultimately show ?case using Cons.IH [of "Suc n" "zscore_train d e"] by simp
qed

lemma stddev_constant: "stddev \<lparr>mean = c, m2 = 0, count = n\<rparr> = 0"
  by (simp add: stddev_def)

lemma zscore_loop_same:
  assumes "constant_stats name c n d"
    and "list_all (\<lambda>(k, v). k = name \<longrightarrow> v = c) ms"
  shows "zscore_loop d ms mx = mx"
  using assms(2)
proof (induction ms)
  case Nil
  then show ?case by simp
next
  case (Cons p ms)
  obtain k v where p: "p = (k, v)" by (cases p)
  show ?case
    using Cons assms(1) unfolding p
    by (auto simp: constant_stats_def stddev_constant eps_def split: if_splits)
qed

lemma zscore_loop_changed:
  assumes "constant_stats name c n d" "30 \<le> n"
    and "(name, v) \<in> set ms" "\<bar>v - c\<bar> > eps"
    and "list_all (\<lambda>(k, v). k = name \<longrightarrow> v = c \<or> \<bar>v - c\<bar> > eps) ms"
  shows "zscore_loop d ms mx = 1"
  using assms(3,5)
proof (induction ms)
  case Nil
  then show ?case by simp
next
  case (Cons p ms)
  obtain k w where p: "p = (k, w)" by (cases p)
  have n0: "n \<noteq> 0" using assms(2) by simp
  show ?case
  proof (cases "k = name")
    case False
    then show ?thesis using Cons assms(1) n0 unfolding p
      by (auto simp: constant_stats_def)
  next
    case True
    show ?thesis
    proof (cases "\<bar>w - c\<bar> > eps")
      case True
      then show ?thesis using \<open>k = name\<close> assms(1,2) n0 unfolding p
        by (simp add: constant_stats_def stddev_constant eps_def)
    next
      case False
      then have "w = c" using Cons.prems(2) \<open>k = name\<close> unfolding p by simp
      then have "(name, v) \<in> set ms" using Cons.prems(1) assms(4) unfolding p
        by (auto simp: eps_def)
      then show ?thesis using Cons \<open>k = name\<close> \<open>w = c\<close> assms(1,2) n0 unfolding p
        by (simp add: constant_stats_def stddev_constant eps_def)
    qed
  qed
qed

text \<open>
  C4, as amended. After training a new Z-score detector only with events whose one metric
  has the constant value \<open>c\<close>, scoring an event with that metric equal to \<open>c\<close> returns 0;
  after at least 30 such training events, scoring an event with that metric equal to
  \<open>c + \<epsilon>\<close> for any \<open>\<epsilon> > 1e-6\<close> returns 1.
\<close>

theorem zscore_constant_metric:
  assumes "list_all (\<lambda>e. metrics e = [(name, c)]) evs"
  shows "(metrics e = [(name, c)]
            \<longrightarrow> zscore_score (foldl zscore_train (new_zscore th) evs) e = 0)
         \<and> (30 \<le> length evs \<and> eps < \<epsilon> \<and> metrics e' = [(name, c + \<epsilon>)]
              \<longrightarrow> zscore_score (foldl zscore_train (new_zscore th) evs) e' = 1)"
proof -
  let ?d = "foldl zscore_train (new_zscore th) evs"
  have "constant_stats name c 0 (new_zscore th)"
    by (simp add: constant_stats_def new_zscore_def)
  from train_constant [OF assms this]
  have cs: "constant_stats name c (length evs) ?d" by simp
  have "zscore_score ?d e = 0" if "metrics e = [(name, c)]"
    using zscore_loop_same [OF cs, of "[(name, c)]" 0] that by (simp add: zscore_score_def)
  moreover have "zscore_score ?d e' = 1"
    if "30 \<le> length evs" "eps < \<epsilon>" "metrics e' = [(name, c + \<epsilon>)]"
    using zscore_loop_changed [OF cs that(1), of "c + \<epsilon>" "[(name, c + \<epsilon>)]" 0] that(2,3)
    by (simp add: zscore_score_def eps_def)
  ultimately show ?thesis by blast
qed

text \<open>C4 at a concrete input: 30 samples of 50, then 50 and 50.5.\<close>

theorem zscore_constant_metric_witness:
  "list_all (\<lambda>e. metrics e = [(''latency_ms'', 50)]) (replicate 30 (ev_metric 50))
   \<and> zscore_score (foldl zscore_train (new_zscore 3) (replicate 30 (ev_metric 50))) (ev_metric 50) = 0
   \<and> zscore_score (foldl zscore_train (new_zscore 3) (replicate 30 (ev_metric 50))) (ev_metric 50.5) = 1"
proof -
  have h: "list_all (\<lambda>e. metrics e = [(''latency_ms'', 50)]) (replicate 30 (ev_metric 50))"
    by (simp add: list_all_iff ev_metric_def)
  have m: "metrics (ev_metric v) = [(''latency_ms'', v)]" for v
    by (simp add: ev_metric_def)
  show ?thesis
    using zscore_constant_metric [OF h, of "ev_metric 50" 3 "0.5" "ev_metric 50.5"] h
    by (simp add: m eps_def)
qed

text \<open>
  C4 as stated fails: after five training events with the value 50, the value 51 scores 0,
  because a metric with fewer than 30 samples is skipped.
\<close>

theorem zscore_too_few_samples:
  "zscore_score (foldl zscore_train (new_zscore 3) (replicate 5 (ev_metric 50))) (ev_metric 51) = 0
   \<and> eps < 1"
  by (simp add: eval_nat_numeral zscore_score_def zscore_train_def new_zscore_def ev_metric_def
      new_event_def welford_def eps_def)

section \<open>Queue backpressure\<close>

lemma emit_all_snoc: "emit_all l (xs @ [(u, e)]) = emit (emit_all l xs) u e"
  by (simp add: emit_all_def)

lemma push_fails_iff:
  "length (queue q) \<le> max_size q \<Longrightarrow> (\<not> fst (push q e)) = (length (queue q) = max_size q)"
  by (auto simp: push_def)

lemma emit_all_burst:
  assumes "initialized l" "event_queue l = Some q" "length (queue q) \<le> max_size q"
    and "list_all (\<lambda>(u, e). should_sample (logger_config l) u e) xs"
  shows "initialized (emit_all l xs)
         \<and> logger_config (emit_all l xs) = logger_config l
         \<and> event_queue (emit_all l xs)
             = Some (q\<lparr>queue := take (max_size q) (queue q @ map snd xs)\<rparr>)
         \<and> events_total (logger_stats (emit_all l xs))
             = events_total (logger_stats l) + of_nat (length xs)
         \<and> events_dropped (logger_stats (emit_all l xs))
             = events_dropped (logger_stats l)
               + of_nat (length (queue q) + length xs - max_size q)"
  using assms(4)
proof (induction xs rule: rev_induct)
  case Nil
  then show ?case using assms(1-3) by (simp add: emit_all_def)
next
  case (snoc x xs)
  obtain u e where x: "x = (u, e)" by (cases x)
  let ?l = "emit_all l xs"
  let ?q = "q\<lparr>queue := take (max_size q) (queue q @ map snd xs)\<rparr>"
  have ih: "initialized ?l" "logger_config ?l = logger_config l" "event_queue ?l = Some ?q"
    "events_total (logger_stats ?l) = events_total (logger_stats l) + of_nat (length xs)"
    "events_dropped (logger_stats ?l) = events_dropped (logger_stats l)
               + of_nat (length (queue q) + length xs - max_size q)"
    using snoc by simp_all
  have s: "should_sample (logger_config ?l) u e" using snoc.prems ih(2) x by simp
  show ?case
  proof (cases "max_size q \<le> length (queue q) + length xs")
    case True
    then have full: "\<not> fst (push ?q e)" by (simp add: push_def)
    have d: "length (queue q) + length (xs @ [x]) - max_size q
             = Suc (length (queue q) + length xs - max_size q)"
      using True by simp
    show ?thesis
      unfolding x emit_all_snoc d
      using ih s full True
      by (simp add: emit_def Let_def push_def)
  next
    case False
    then have d: "length (queue q) + length (xs @ [x]) - max_size q = 0"
      "length (queue q) + length xs - max_size q = 0" by simp_all
    show ?thesis
      unfolding x emit_all_snoc d
      using ih s False unfolding d
      by (simp add: emit_def Let_def push_def)
  qed
qed

text \<open>
  C2. \<^verbatim>\<open>push\<close> never waits: it returns at once, and on a queue within its capacity it
  fails exactly when the queue holds \<^verbatim>\<open>max_size_\<close> events, leaving the queue as it was.
  Consequently, when an initialised logger with an empty queue of the given capacity
  emits \<open>N > capacity\<close> sampled events and nothing is popped, the queue retains exactly
  the first \<open>capacity\<close> events, \<^verbatim>\<open>events_total\<close> grows by \<open>N\<close> and \<^verbatim>\<open>events_dropped\<close> by
  \<open>N - capacity\<close>, one for each failed push.
\<close>

theorem queue_backpressure:
  assumes "initialized l" and "event_queue l = Some (new_queue capacity)"
    and "list_all (\<lambda>(u, e). should_sample (logger_config l) u e) xs"
    and "capacity < length xs"
    and "length (queue q) \<le> max_size q"
  shows "(\<not> fst (push q e)) = (length (queue q) = max_size q)
         \<and> (fst (push q e) \<or> snd (push q e) = q)
         \<and> (case event_queue (emit_all l xs) of
               None \<Rightarrow> False
             | Some q' \<Rightarrow> queue q' = take capacity (map snd xs) \<and> length (queue q') = capacity)
         \<and> events_total (logger_stats (emit_all l xs))
             = events_total (logger_stats l) + of_nat (length xs)
         \<and> events_dropped (logger_stats (emit_all l xs))
             = events_dropped (logger_stats l) + of_nat (length xs - capacity)"
proof -
  have q0: "length (queue (new_queue capacity)) \<le> max_size (new_queue capacity)"
    by (simp add: new_queue_def)
  from emit_all_burst [OF assms(1,2) q0 assms(3)]
  have "event_queue (emit_all l xs) = Some ((new_queue capacity)\<lparr>queue := take capacity (map snd xs)\<rparr>)"
    and "events_total (logger_stats (emit_all l xs))
             = events_total (logger_stats l) + of_nat (length xs)"
    and "events_dropped (logger_stats (emit_all l xs))
             = events_dropped (logger_stats l) + of_nat (length xs - capacity)"
    by (simp_all add: new_queue_def)
  moreover have "(\<not> fst (push q e)) = (length (queue q) = max_size q)"
    using assms(5) by (rule push_fails_iff)
  moreover have "fst (push q e) \<or> snd (push q e) = q"
    by (simp add: push_def)
  ultimately show ?thesis using assms(4) by simp
qed

lemma l_small_facts:
  "initialized l_small" "event_queue l_small = Some (new_queue 4)"
  "logger_config l_small = default_config\<lparr>async_queue_size := 4, worker_threads := 0\<rparr>"
  "logger_stats l_small = \<lparr>events_total = 0, events_dropped = 0, anomalies_detected = 0,
                      patterns_matched = 0, correlations_found = 0, incidents_created = 0\<rparr>"
  by (simp_all add: l_small_def init_def new_logger_def default_config_def)

text \<open>C2 at a concrete input: ten events into a queue of four.\<close>

theorem queue_backpressure_witness:
  "initialized l_small \<and> event_queue l_small = Some (new_queue 4)
   \<and> list_all (\<lambda>(u, e). should_sample (logger_config l_small) u e) (burst 10)
   \<and> 4 < length (burst 10)
   \<and> length (queue (new_queue 4)) \<le> max_size (new_queue 4)
   \<and> events_total (logger_stats (emit_all l_small (burst 10))) = 10
   \<and> events_dropped (logger_stats (emit_all l_small (burst 10))) = 6
   \<and> map_option (\<lambda>q. length (queue q)) (event_queue (emit_all l_small (burst 10))) = Some 4"
proof -
  have h3: "list_all (\<lambda>(u, e). should_sample (logger_config l_small) u e) (burst 10)"
    by (simp add: list_all_iff burst_def l_small_facts should_sample_def default_config_def)
  have h4: "4 < length (burst 10)" by (simp add: burst_def)
  have h5: "length (queue (new_queue 4)) \<le> max_size (new_queue 4)" by (simp add: new_queue_def)
  show ?thesis
    using queue_backpressure [OF l_small_facts(1,2) h3 h4 h5, of "new_event ''tick'' 0 0"] h3 h4 h5
    by (auto simp: l_small_facts burst_def split: option.splits)
qed

section \<open>The range of the anomaly score\<close>





















subsection \<open>The stages after the anomaly stage\<close>

lemma anomaly_stage_fields:
  "event_history (fst (anomaly_stage l e)) = event_history l"
  "event_callbacks (fst (anomaly_stage l e)) = event_callbacks l"
  "log_file (fst (anomaly_stage l e)) = log_file l"
  "incident_manager (fst (anomaly_stage l e)) = incident_manager l"
  "anomaly_callbacks (fst (anomaly_stage l e)) = anomaly_callbacks l"
  "correlation_engine (fst (anomaly_stage l e)) = correlation_engine l"
  by (simp_all add: anomaly_stage_def Let_def split: option.splits prod.splits)

lemma pattern_stage_fields:
  "event_history (fst (pattern_stage rx l p)) = event_history l"
  "event_callbacks (fst (pattern_stage rx l p)) = event_callbacks l"
  "log_file (fst (pattern_stage rx l p)) = log_file l"
  "incident_manager (fst (pattern_stage rx l p)) = incident_manager l"
  "anomaly_detector (fst (pattern_stage rx l p)) = anomaly_detector l"
  "anomaly_callbacks (fst (pattern_stage rx l p)) = anomaly_callbacks l"
  "correlation_engine (fst (pattern_stage rx l p)) = correlation_engine l"
  by (simp_all add: pattern_stage_def Let_def split: option.splits prod.splits)

lemma correlation_stage_fields:
  assumes "correlation_stage l p = Some (l', cs)"
  shows "event_history l' = event_history l"
    "event_callbacks l' = event_callbacks l"
    "log_file l' = log_file l"
    "incident_manager l' = incident_manager l"
    "anomaly_detector l' = anomaly_detector l"
  using assms
  by (auto simp: correlation_stage_def Let_def split: option.splits prod.splits if_splits)

text \<open>
  The correlation stage returns where the logger has no correlation engine, and where the
  history is empty: \<^verbatim>\<open>learn\<close> has nothing to divide.
\<close>

lemma correlation_stage_returns:
  assumes "correlation_engine l = None \<or> event_history l = []"
  shows "correlation_stage l p \<noteq> None"
  using assms
  by (auto simp: correlation_stage_def process_def Let_def split: option.splits prod.splits)



lemma incident_stage_none:
  "incident_manager l = None \<Longrightarrow> incident_stage l now p cs ps = (l, [], Returns)"
  by (simp add: incident_stage_def)

lemma history_stage_fields:
  "event_callbacks (history_stage l p) = event_callbacks l"
  "log_file (history_stage l p) = log_file l"
  "anomaly_detector (history_stage l p) = anomaly_detector l"
  "anomaly_callbacks (history_stage l p) = anomaly_callbacks l"
  "correlation_engine (history_stage l p) = correlation_engine l"
  "incident_manager (history_stage l p) = incident_manager l"
  by (simp_all add: history_stage_def Let_def)












lemma anomaly_stage_quiet:
  "anomaly_callbacks l = [] \<Longrightarrow>
   snd (snd (anomaly_stage l e)) = ([], Returns)"
  by (simp add: anomaly_stage_def Let_def split: option.splits prod.splits)

lemma process_event_listeners:
  assumes "anomaly_callbacks l = []" "incident_manager l = None"
    and "correlation_engine l = None \<or> event_history l = []"
  shows "called (process_event rx l now e)
           = fst (invoke_all (event_callbacks l) (processed_event l e))
         \<and> finished (process_event rx l now e)
           = (snd (invoke_all (event_callbacks l) (processed_event l e)) = Returns)"
proof -
  obtain l1 p c1 r1 where a: "anomaly_stage l e = (l1, p, c1, r1)"
    by (cases "anomaly_stage l e") auto
  have q: "c1 = []" "r1 = Returns" using anomaly_stage_quiet [OF assms(1), of e] a by simp_all
  obtain l2 ms where b: "pattern_stage rx l1 p = (l2, ms)" by (cases "pattern_stage rx l1 p")
  have "correlation_engine l2 = None \<or> event_history l2 = []"
    using anomaly_stage_fields(1,6) [of l e] pattern_stage_fields(1,7) [of rx l1 p] assms(3)
    by (simp add: a b)
  then obtain l3 cs where c: "correlation_stage l2 p = Some (l3, cs)"
    using correlation_stage_returns [of l2 p] by (cases "correlation_stage l2 p") auto
  have "incident_manager l3 = None"
    using anomaly_stage_fields(4) [of l e] pattern_stage_fields(4) [of rx l1 p]
      correlation_stage_fields(4) [OF c] assms(2)
    by (simp add: a b)
  then have d: "incident_stage l3 now p cs ms = (l3, [], Returns)" by (rule incident_stage_none)
  have cb: "event_callbacks (history_stage l3 p) = event_callbacks l"
    using anomaly_stage_fields(2) [of l e] pattern_stage_fields(2) [of rx l1 p]
      correlation_stage_fields(2) [OF c]
    by (simp add: a b history_stage_fields)
  obtain c3 r3 where e: "invoke_all (event_callbacks l) p = (c3, r3)"
    by (cases "invoke_all (event_callbacks l) p")
  have pe: "processed_event l e = p" by (simp add: processed_event_def a)
  show ?thesis
    unfolding pe
    by (cases r3) (simp_all add: process_event_def a b c d cb e q Let_def)
qed

lemma l_default_fields:
  "anomaly_callbacks l_default = []" "event_callbacks l_default = []"
  "incident_manager l_default = None" "anomaly_detector l_default = Some create_default"
  "log_file l_default = None" "event_history l_default = []"
  by (simp_all add: l_default_def init_def new_logger_def default_config_def)

lemma l_listeners_fields:
  "anomaly_callbacks l_listeners = []"
  "event_callbacks l_listeners = [(''first'', \<lambda>e. Throws), (''second'', \<lambda>e. Returns)]"
  "incident_manager l_listeners = None" "event_history l_listeners = []"
  by (simp_all add: l_listeners_def on_event_def l_default_fields)

subsection \<open>A trained logger\<close>













section \<open>Listeners that throw\<close>

text \<open>
  C8 does not hold of the source. With two event callbacks registered, of which the first
  throws, \<^verbatim>\<open>process_event\<close> calls the first only and the exception leaves it; the same
  happens to the incident-created callbacks in \<^verbatim>\<open>evaluate_event\<close>. The calls of the
  integrations, next to them, are wrapped in \<^verbatim>\<open>try\<close> and \<^verbatim>\<open>catch\<close>.
\<close>

theorem callbacks_not_isolated:
  "called (process_event rx_none l_listeners 0 (ev_metric 50)) = [''first'']
   \<and> \<not> finished (process_event rx_none l_listeners 0 (ev_metric 50))
   \<and> notified (evaluate_event m_listeners 0 ev_spike [] []) = [''first'']
   \<and> ret (evaluate_event m_listeners 0 ev_spike [] []) = Propagated"
proof -
  have "called (process_event rx_none l_listeners 0 (ev_metric 50)) = [''first'']
        \<and> \<not> finished (process_event rx_none l_listeners 0 (ev_metric 50))"
    using process_event_listeners [of l_listeners rx_none 0 "ev_metric 50"]
    by (simp add: l_listeners_fields)
  moreover have "notified (evaluate_event m_listeners 0 ev_spike [] []) = [''first'']
        \<and> ret (evaluate_event m_listeners 0 ev_spike [] []) = Propagated"
    by (simp add: m_listeners_def on_incident_created_def new_manager_def evaluate_event_def
        should_create_def default_incident_config_def ev_spike_def new_event_def
        find_duplicate_def store_and_notify_def Let_def)
  ultimately show ?thesis by simp
qed

section \<open>Serialization to JSON\<close>

text \<open>
  C7 does not hold of the source. \<^verbatim>\<open>to_json\<close> writes every string as it is, without
  escaping: the event whose entity \<open>user\<close> has the value \<^verbatim>\<open>a","x":"b\<close> is written as the
  same text as the event with the two entities \<open>user = a\<close> and \<open>x = b\<close>. A parse of that
  text gives one result for both, so it cannot give back the entities of both.
\<close>

theorem to_json_unescaped_collision:
  "text_of (to_json ev_quoted) = text_of (to_json ev_two_entities)
   \<and> event_id ev_quoted = event_id ev_two_entities
   \<and> entities ev_quoted \<noteq> entities ev_two_entities"
  by (simp add: to_json_def ev_quoted_def ev_two_entities_def new_event_def dq_def dec.simps
      dec_int_def to_milliseconds_def digit_char_def)

end
